theory Spec2Isabelle
  imports Main "HOL-Library.Stream" "HOL-Library.Multiset" "HOL-Library.Sublist"
begin

section \<open>Python values used by random\_c\_program\_finder.py\<close>

text \<open>
  Exceptions are values: a kind and the text that \<^verbatim>\<open>str(e)\<close> gives.
  \<^verbatim>\<open>KeyboardInterrupt\<close> is the one kind here that is not a subclass of
  \<^verbatim>\<open>Exception\<close>, so \<^verbatim>\<open>except Exception\<close> lets it pass.
\<close>

datatype exn_kind =
    IndexError | ZeroDivisionError | OSError | FileNotFoundError | FileExistsError
  | TimeoutExpired | ValueError | KeyboardInterrupt

datatype py_exn = Exn exn_kind string

fun str_exn :: "py_exn \<Rightarrow> string" where
  "str_exn (Exn k m) = m"

fun is_Exception :: "py_exn \<Rightarrow> bool" where
  "is_Exception (Exn k m) = (k \<noteq> KeyboardInterrupt)"

text \<open>
  A Python number is an unbounded \<^verbatim>\<open>int\<close> or a \<^verbatim>\<open>float\<close>. The only float the
  modelled code computes is \<^verbatim>\<open>charset_size ** length\<close> for a negative length; its
  value is left symbolic.
\<close>

datatype py_number = PyInt int | PyFloatPow int int

subsection \<open>Decimal text of integers\<close>

definition digit_char :: "nat \<Rightarrow> char" where
  "digit_char d = ''0123456789'' ! d"

fun str_nat :: "nat \<Rightarrow> string" where
  "str_nat n = (if n < 10 then [digit_char n] else str_nat (n div 10) @ [digit_char (n mod 10)])"

declare str_nat.simps [simp del]

text \<open>\<^verbatim>\<open>str(i)\<close> and \<^verbatim>\<open>f"{i}"\<close> for an int.\<close>

definition str_int :: "int \<Rightarrow> string" where
  "str_int i = (if i < 0 then CHR ''-'' # str_nat (nat (- i)) else str_nat (nat i))"

text \<open>
  \<^verbatim>\<open>f"{i:,}"\<close> for an int: the decimal digits with a comma between groups of three,
  counted from the right, after the sign.
\<close>

fun group3 :: "string \<Rightarrow> string" where
  "group3 (a # b # c # d # rest) = a # b # c # CHR '','' # group3 (d # rest)"
| "group3 xs = xs"

definition format_comma :: "int \<Rightarrow> string" where
  "format_comma i =
     (if i < 0 then ''-'' else []) @ rev (group3 (rev (str_nat (nat \<bar>i\<bar>))))"

section \<open>Combinatorics and number formatting\<close>

text \<open>
  \<^verbatim>\<open>def calculate_combinations(charset_size, length): return charset_size ** length\<close>

  On ints, \<^verbatim>\<open>**\<close> is exact for a non-negative exponent, gives a float for a negative
  one, and raises for \<^verbatim>\<open>0 ** negative\<close>.
\<close>

definition calculate_combinations :: "int \<Rightarrow> int \<Rightarrow> py_exn + py_number" where
  "calculate_combinations charset_size length' =
     (if 0 \<le> length' then Inr (PyInt (charset_size ^ nat length'))
      else if charset_size = 0
        then Inl (Exn ZeroDivisionError ''0.0 cannot be raised to a negative power'')
      else Inr (PyFloatPow charset_size length'))"

text \<open>
  \<^verbatim>\<open>
  def format_large_number(number):
      if number < 1e6:
          return f"{number:,}"
      exponent = math.floor(math.log10(number))
      mantissa = number / 10**exponent
      return f"{mantissa:.2f} [U+00D7] 10^{exponent}"
  \<close>
  The model is for an int argument (the number of combinations). The comparison of an
  int with the float \<^verbatim>\<open>1e6\<close> is exact in Python. The two floating-point library
  computations are parameters: \<open>floor_log10 n\<close> stands for
  \<^verbatim>\<open>math.floor(math.log10(n))\<close> and \<open>fmt_mantissa n e\<close> for the text
  \<^verbatim>\<open>f"{n / 10**e:.2f}"\<close>. The multiplication sign is the two bytes of its UTF-8
  encoding.
\<close>

definition times_sign :: string where
  "times_sign = [CHR 0xC3, CHR 0x97]"

definition scientific :: "string \<Rightarrow> string \<Rightarrow> string" where
  "scientific mantissa exponent = mantissa @ '' '' @ times_sign @ '' 10^'' @ exponent"

definition format_large_number :: "(int \<Rightarrow> int) \<Rightarrow> (int \<Rightarrow> int \<Rightarrow> string) \<Rightarrow> int \<Rightarrow> string" where
  "format_large_number floor_log10 fmt_mantissa number =
     (if number < 10 ^ 6 then format_comma number
      else let exponent = floor_log10 number
           in scientific (fmt_mantissa number exponent) (str_int exponent))"




section \<open>The character set\<close>

definition ascii_lowercase :: string where
  "ascii_lowercase = ''abcdefghijklmnopqrstuvwxyz''"

definition ascii_uppercase :: string where
  "ascii_uppercase = ''ABCDEFGHIJKLMNOPQRSTUVWXYZ''"

definition digits :: string where
  "digits = ''0123456789''"

text \<open>The symbols end with the single quote, the double quote and the backslash.\<close>

definition symbols :: string where
  "symbols = ''+-*/=<>!&|^%~?:;,.(){}[]'' @ [CHR 0x27, CHR 0x22, CHR 0x5C]"

definition whitespace_chars :: string where
  "whitespace_chars = [CHR '' '', CHR 0x09, CHR 0x0A]"

text \<open>
  \<^verbatim>\<open>
  def get_charset(include_lowercase=True, include_uppercase=True, include_digits=True,
                  include_symbols=True, include_whitespace=False, custom_charset=None):
      if custom_charset:
          return custom_charset
      charset = ""
      if include_lowercase: charset += string.ascii_lowercase
      ...
      return charset
  \<close>
  \<^verbatim>\<open>custom_charset\<close> is \<^verbatim>\<open>None\<close> or a string; it is truthy when it is a
  non-empty string.
\<close>

definition get_charset :: "bool \<Rightarrow> bool \<Rightarrow> bool \<Rightarrow> bool \<Rightarrow> bool \<Rightarrow> string option \<Rightarrow> string" where
  "get_charset include_lowercase include_uppercase include_digits include_symbols
       include_whitespace custom_charset =
     (if custom_charset \<noteq> None \<and> custom_charset \<noteq> Some []
      then the custom_charset
      else (if include_lowercase then ascii_lowercase else [])
           @ (if include_uppercase then ascii_uppercase else [])
           @ (if include_digits then digits else [])
           @ (if include_symbols then symbols else [])
           @ (if include_whitespace then whitespace_chars else []))"

section \<open>The content generator\<close>

text \<open>
  The state of Python's random generator is the stream of the raw numbers it will draw.
  \<^verbatim>\<open>random.choice(seq)\<close> raises \<^verbatim>\<open>IndexError\<close> on an empty sequence and otherwise
  returns \<^verbatim>\<open>seq[k]\<close> for a \<open>k\<close> below \<^verbatim>\<open>len(seq)\<close> that the generator draws: the
  next raw number reduced modulo the length. Every sequence of indices the library can
  draw is the reduction of some stream, so a statement about all streams covers the
  library.
\<close>

type_synonym rng = "nat stream"

definition random_choice :: "string \<Rightarrow> rng \<Rightarrow> py_exn + (char \<times> rng)" where
  "random_choice seq g =
     (if seq = [] then Inl (Exn IndexError ''Cannot choose from an empty sequence'')
      else Inr (seq ! (shd g mod length seq), stl g))"

text \<open>
  \<^verbatim>\<open>
  def generate_random_c_content(size, charset):
      return ''.join(random.choice(charset) for _ in range(size))
  \<close>
  \<open>choices n\<close> is the generator expression run for \<open>n\<close> rounds; \<^verbatim>\<open>range(size)\<close> has
  \<open>nat size\<close> elements, none for a negative size.
\<close>

fun choices :: "nat \<Rightarrow> string \<Rightarrow> rng \<Rightarrow> py_exn + (string \<times> rng)" where
  "choices 0 charset g = Inr ([], g)"
| "choices (Suc n) charset g =
     (case random_choice charset g of
        Inl e \<Rightarrow> Inl e
      | Inr (c, g') \<Rightarrow>
          (case choices n charset g' of
             Inl e \<Rightarrow> Inl e
           | Inr (s, g'') \<Rightarrow> Inr (c # s, g'')))"

definition generate_random_c_content :: "int \<Rightarrow> string \<Rightarrow> rng \<Rightarrow> py_exn + (string \<times> rng)" where
  "generate_random_c_content size' charset g = choices (nat size') charset g"

section \<open>Programs with exceptions and state\<close>

text \<open>
  A statement of the source that can raise or that changes the world is a function from
  the state to a result and the new state; the result is \<open>Inl\<close> of the exception
  raised or \<open>Inr\<close> of the value returned.
\<close>

type_synonym ('a, 's) prog = "'s \<Rightarrow> (py_exn + 'a) \<times> 's"

definition return :: "'a \<Rightarrow> ('a, 's) prog" where
  "return a s = (Inr a, s)"

definition raise :: "py_exn \<Rightarrow> ('a, 's) prog" where
  "raise e s = (Inl e, s)"

text \<open>\<open>seq m f\<close>: run \<open>m\<close>, and \<open>f\<close> on its value unless it raised.\<close>

definition seq :: "('a, 's) prog \<Rightarrow> ('a \<Rightarrow> ('b, 's) prog) \<Rightarrow> ('b, 's) prog" where
  "seq m f s = (case m s of (Inl e, s') \<Rightarrow> (Inl e, s') | (Inr a, s') \<Rightarrow> f a s')"

text \<open>\<^verbatim>\<open>try: m  except Exception as e: h(e)\<close>\<close>

definition try_except_Exception :: "('a, 's) prog \<Rightarrow> (py_exn \<Rightarrow> ('a, 's) prog) \<Rightarrow> ('a, 's) prog" where
  "try_except_Exception m h s =
     (case m s of
        (Inl e, s') \<Rightarrow> if is_Exception e then h e s' else (Inl e, s')
      | (Inr a, s') \<Rightarrow> (Inr a, s'))"

text \<open>
  The same on a result: \<open>and_then r f\<close> goes on with \<open>f\<close> after a statement that
  ended in \<open>r\<close>, and \<open>except_KeyboardInterrupt r h\<close> is
  \<^verbatim>\<open>try: ...  except KeyboardInterrupt: h\<close> around a block that ended in \<open>r\<close>.
\<close>

definition and_then :: "(py_exn + 'a) \<times> 's \<Rightarrow> ('a \<Rightarrow> ('b, 's) prog) \<Rightarrow> (py_exn + 'b) \<times> 's" where
  "and_then r f = (case r of (Inl e, s') \<Rightarrow> (Inl e, s') | (Inr a, s') \<Rightarrow> f a s')"

fun is_KeyboardInterrupt :: "py_exn \<Rightarrow> bool" where
  "is_KeyboardInterrupt (Exn k m) = (k = KeyboardInterrupt)"

definition except_KeyboardInterrupt :: "(py_exn + unit) \<times> 's \<Rightarrow> (unit, 's) prog \<Rightarrow> (py_exn + unit) \<times> 's" where
  "except_KeyboardInterrupt r h =
     (case r of
        (Inl e, s') \<Rightarrow> if is_KeyboardInterrupt e then h s' else (Inl e, s')
      | (Inr a, s') \<Rightarrow> (Inr a, s'))"

section \<open>The file system and the compiler process\<close>

text \<open>The files of the working directory: a map from a file's name to its text.\<close>

type_synonym path = string
type_synonym files = "path \<rightharpoonup> string"

definition os_path_exists :: "path \<Rightarrow> files \<Rightarrow> bool" where
  "os_path_exists p fs = (fs p \<noteq> None)"

definition os_remove :: "path \<Rightarrow> (unit, files) prog" where
  "os_remove p fs =
     (if os_path_exists p fs then (Inr (), fs(p := None))
      else (Inl (Exn FileNotFoundError (''[Errno 2] No such file or directory: '' @ p)), fs))"

text \<open>\<^verbatim>\<open>if os.path.exists(p): os.remove(p)\<close>\<close>

definition remove_if_exists :: "path \<Rightarrow> (unit, files) prog" where
  "remove_if_exists p fs = (if os_path_exists p fs then os_remove p fs else return () fs)"

text \<open>
  What \<^verbatim>\<open>subprocess.run\<close> gives back: a completed process with its return code,
  standard output and standard error, or an exception (\<^verbatim>\<open>TimeoutExpired\<close> when the
  timeout expires, \<^verbatim>\<open>FileNotFoundError\<close> or another \<^verbatim>\<open>OSError\<close> when the compiler
  cannot be launched).
\<close>

datatype run_result = CompletedProcess int string string | Raises py_exn

text \<open>
  What one execution of \<^verbatim>\<open>worker\<close> gets from the operating system: its process id,
  the state its process's random generator is in, the 32 hexadecimal digits of
  \<^verbatim>\<open>uuid.uuid4().hex\<close>, whether \<^verbatim>\<open>open(c_file, "w")\<close> raises, and what running a
  command with a timeout does: the result of \<^verbatim>\<open>subprocess.run\<close>, and the text of
  the object file if the compiler wrote one.
\<close>

record os_env =
  getpid :: int
  rng_before :: rng
  uuid4_hex :: string
  open_raises :: "py_exn option"
  subprocess_run :: "string list \<Rightarrow> int \<Rightarrow> run_result \<times> string option"

text \<open>\<^verbatim>\<open>with open(c_file, "w") as f: f.write(text)\<close>\<close>

definition open_write :: "os_env \<Rightarrow> path \<Rightarrow> string \<Rightarrow> (unit, files) prog" where
  "open_write env p text' fs =
     (case open_raises env of
        Some e \<Rightarrow> (Inl e, fs)
      | None \<Rightarrow> (Inr (), fs(p \<mapsto> text')))"

text \<open>\<^verbatim>\<open>compiler -c name.c\<close> writes its object file to \<^verbatim>\<open>name.o\<close>.\<close>

definition object_file_of :: "path \<Rightarrow> path" where
  "object_file_of src = take (length src - 2) src @ ''.o''"

text \<open>
  \<^verbatim>\<open>subprocess.run([compiler, "-c", c_file], stdout=PIPE, stderr=PIPE, timeout=timeout, text=True)\<close>:
  the object file, if any, is on disk whether the call returns or raises.
\<close>

definition run_compiler :: "os_env \<Rightarrow> string \<Rightarrow> path \<Rightarrow> int \<Rightarrow> (int \<times> string \<times> string, files) prog" where
  "run_compiler env compiler c_file timeout' fs =
     (case subprocess_run env [compiler, ''-c'', c_file] timeout' of
        (r, obj) \<Rightarrow>
          (let fs' = (case obj of None \<Rightarrow> fs | Some bytes \<Rightarrow> fs(object_file_of c_file \<mapsto> bytes))
           in case r of
                CompletedProcess returncode out err \<Rightarrow> (Inr (returncode, out, err), fs')
              | Raises e \<Rightarrow> (Inl e, fs')))"

section \<open>The compile prober\<close>

definition unlines :: "string list \<Rightarrow> string" where
  "unlines ls = concat (map (\<lambda>l. l @ [CHR 0x0A]) ls)"

text \<open>\<^verbatim>\<open>C_TEMPLATE % content\<close>: the template has one \<^verbatim>\<open>%s\<close>.\<close>

definition C_TEMPLATE :: "string \<Rightarrow> string" where
  "C_TEMPLATE content =
     [CHR 0x0A] @ unlines
       [''#include <stdio.h>'', ''#include <stdlib.h>'', ''#include <string.h>'',
        ''#include <math.h>'', ''#include <ctype.h>'', ''#include <time.h>'',
        ''#include <assert.h>'', ''#include <errno.h>'', ''#include <float.h>'',
        ''#include <limits.h>'', ''#include <locale.h>'', ''#include <setjmp.h>'',
        ''#include <signal.h>'', ''#include <stdarg.h>'', ''#include <stddef.h>'',
        ''#include <unistd.h>'', ''#include <fcntl.h>'', ''#include <sys/types.h>'',
        ''#include <sys/stat.h>'', ''#include <pthread.h>'', ''#include <dirent.h>'',
        ''#include <termios.h>'', [], ''int main(int argc, char **argv) {'']
     @ content @ [CHR 0x0A] @ unlines [''    return 0;'', ''}'']"

text \<open>
  \<^verbatim>\<open>
  def test_compilation(content, pid, compiler, timeout=2):
      unique_id = uuid.uuid4().hex[:8]
      filename = f"{pid}_{unique_id}"
      c_file = f"{filename}.c"
      with open(c_file, "w") as f:
          f.write(C_TEMPLATE % content)
      try:
          result = subprocess.run([compiler, "-c", c_file], ..., timeout=timeout, text=True)
          success = result.returncode == 0
          error_message = result.stderr if not success else ""
          if not success:
              os.remove(c_file)
              if os.path.exists(f"{filename}.o"):
                  os.remove(f"{filename}.o")
      except Exception as e:
          success = False
          error_message = str(e)
          if os.path.exists(c_file):
              os.remove(c_file)
      if os.path.exists(f"{filename}.o"):
          os.remove(f"{filename}.o")
      return success, content, c_file if success else None, error_message
  \<close>
\<close>

type_synonym probe_result = "bool \<times> string \<times> path option \<times> string"

definition filename_of :: "int \<Rightarrow> os_env \<Rightarrow> string" where
  "filename_of pid env = str_int pid @ ''_'' @ take 8 (uuid4_hex env)"

definition test_compilation :: "string \<Rightarrow> int \<Rightarrow> string \<Rightarrow> int \<Rightarrow> os_env \<Rightarrow> (probe_result, files) prog" where
  "test_compilation content pid compiler timeout' env =
     (let filename = filename_of pid env;
          c_file = filename @ ''.c''
      in seq (open_write env c_file (C_TEMPLATE content)) (\<lambda>_.
         seq (try_except_Exception
                (seq (run_compiler env compiler c_file timeout') (\<lambda>(returncode, out, err).
                   let success = (returncode = 0);
                       error_message = (if \<not> success then err else [])
                   in seq (if \<not> success
                             then seq (os_remove c_file) (\<lambda>_. remove_if_exists (filename @ ''.o''))
                             else return ())
                          (\<lambda>_. return (success, error_message))))
                (\<lambda>e. seq (remove_if_exists c_file) (\<lambda>_. return (False, str_exn e))))
             (\<lambda>(success, error_message).
         seq (remove_if_exists (filename @ ''.o'')) (\<lambda>_.
         return (success, content, if success then Some c_file else None, error_message)))))"

section \<open>The worker\<close>

text \<open>
  A task is the tuple \<^verbatim>\<open>worker\<close> unpacks, without the three handles of the shared
  lock and counters: the task id, the content length, the character set, the compiler
  and the flag for printing errors.
\<close>

type_synonym task = "int \<times> int \<times> string \<times> string \<times> bool"

text \<open>
  A line of console output is its text, except for the lines that print floating-point
  values, which are kept as the integers they are computed from:
  \<open>Progress total successes\<close> (line 140), \<open>ProcessingSpeed total\<close> (line 223),
  \<open>TotalCombinationsFloat\<close> (line 184 for a float), \<open>Results\<close> (lines 243 to 271).
\<close>

datatype console =
    Text string
  | Progress int int
  | ProcessingSpeed int
  | TotalCombinationsFloat py_number
  | Results int int py_number

text \<open>
  The world the run changes: the files and directories of the working directory, the
  two shared counters, the console, and two histories kept for stating properties:
  every value pair the counters have had since they were created, and the tasks
  handed to the pool.
\<close>

record world =
  files :: files
  dirs :: "path set"
  total_count :: int
  successful_count :: int
  counter_log :: "(int \<times> int) list"
  stdout :: "console list"
  dispatched :: "task list"

definition print :: "console \<Rightarrow> (unit, world) prog" where
  "print l w = (Inr (), w\<lparr>stdout := stdout w @ [l]\<rparr>)"

definition on_files :: "('a, files) prog \<Rightarrow> ('a, world) prog" where
  "on_files m w = (case m (files w) of (r, fs') \<Rightarrow> (r, w\<lparr>files := fs'\<rparr>))"

text \<open>\<^verbatim>\<open>total_count.value = v\<close> and \<^verbatim>\<open>successful_count.value = v\<close>\<close>

definition write_total :: "int \<Rightarrow> (unit, world) prog" where
  "write_total v w =
     (Inr (), w\<lparr>total_count := v, counter_log := counter_log w @ [(v, successful_count w)]\<rparr>)"

definition write_successful :: "int \<Rightarrow> (unit, world) prog" where
  "write_successful v w =
     (Inr (), w\<lparr>successful_count := v, counter_log := counter_log w @ [(total_count w, v)]\<rparr>)"

text \<open>\<^verbatim>\<open>random.seed(a)\<close> replaces the generator's state by the one the seed gives.\<close>

definition random_seed :: "(int \<Rightarrow> rng) \<Rightarrow> int \<Rightarrow> rng \<Rightarrow> rng" where
  "random_seed seeded a g = seeded a"

text \<open>
  \<^verbatim>\<open>
  def worker(args):
      task_id, counter_lock, successful_count, total_count, byte_size, charset, compiler, show_errors = args
      pid = os.getpid()
      random.seed(pid + task_id)
      content = generate_random_c_content(byte_size, charset)
      success, content, filename, error_message = test_compilation(content, pid, compiler)
      with counter_lock:
          total_count.value += 1
          if success:
              successful_count.value += 1
              print(f"Compilation successful! ({successful_count.value}/{total_count.value}) - Saved as {filename}")
          elif show_errors:
              print(f"Compilation failed: {error_message[:100]}..." if len(error_message) > 100
                    else f"Compilation failed: {error_message}")
          if total_count.value % 100 == 0:
              success_rate = successful_count.value / total_count.value * 100
              print(f"Progress: ...")
      return success
  \<close>
  \<open>worker_seed\<close> is the argument of \<^verbatim>\<open>random.seed\<close>, \<open>worker_content\<close> the
  value of \<^verbatim>\<open>content\<close> after line 125, and \<open>with_counter_lock\<close> the block under the
  lock. \<^verbatim>\<open>test_compilation\<close> is called without a timeout, so with its default 2.
\<close>

definition worker_seed :: "int \<Rightarrow> int \<Rightarrow> int" where
  "worker_seed pid task_id = pid + task_id"

definition worker_content :: "(int \<Rightarrow> rng) \<Rightarrow> os_env \<Rightarrow> task \<Rightarrow> py_exn + string" where
  "worker_content seeded env = (\<lambda>(task_id, byte_size, charset, compiler, show_errors).
     let pid = getpid env;
         g = random_seed seeded (worker_seed pid task_id) (rng_before env)
     in map_sum id fst (generate_random_c_content byte_size charset g))"

definition str_filename :: "path option \<Rightarrow> string" where
  "str_filename filename = (case filename of None \<Rightarrow> ''None'' | Some f \<Rightarrow> f)"

definition with_counter_lock :: "bool \<Rightarrow> path option \<Rightarrow> string \<Rightarrow> bool \<Rightarrow> (unit, world) prog" where
  "with_counter_lock success filename error_message show_errors =
     seq (\<lambda>w. write_total (total_count w + 1) w) (\<lambda>_.
     seq (if success
            then seq (\<lambda>w. write_successful (successful_count w + 1) w) (\<lambda>_.
                 \<lambda>w. print (Text (''Compilation successful! ('' @ str_int (successful_count w)
                          @ ''/'' @ str_int (total_count w) @ '') - Saved as ''
                          @ str_filename filename)) w)
          else if show_errors
            then print (Text (if length error_message > 100
                              then ''Compilation failed: '' @ take 100 error_message @ ''...''
                              else ''Compilation failed: '' @ error_message))
          else return ()) (\<lambda>_.
     \<lambda>w. if total_count w mod 100 = 0
          then (if total_count w = 0
                then raise (Exn ZeroDivisionError ''division by zero'') w
                else print (Progress (total_count w) (successful_count w)) w)
          else return () w))"

definition worker :: "(int \<Rightarrow> rng) \<Rightarrow> os_env \<Rightarrow> task \<Rightarrow> (bool, world) prog" where
  "worker seeded env = (\<lambda>(task_id, byte_size, charset, compiler, show_errors).
     let pid = getpid env
     in seq (Pair (worker_content seeded env (task_id, byte_size, charset, compiler, show_errors)))
          (\<lambda>content.
        seq (on_files (test_compilation content pid compiler 2 env))
          (\<lambda>(success, content, filename, error_message).
        seq (with_counter_lock success filename error_message show_errors) (\<lambda>_.
        return success))))"

section \<open>The dispatcher\<close>

record args =
  args_byte_size :: int
  args_tasks :: int
  args_no_lowercase :: bool
  args_no_uppercase :: bool
  args_no_digits :: bool
  args_no_symbols :: bool
  args_whitespace :: bool
  args_charset :: "string option"
  args_compiler :: string
  args_show_errors :: bool
  args_timeout :: int

text \<open>The defaults of the argument parser (lines 147 to 159).\<close>

definition default_args :: args where
  "default_args = \<lparr> args_byte_size = 5, args_tasks = 10000, args_no_lowercase = False,
     args_no_uppercase = False, args_no_digits = False, args_no_symbols = False,
     args_whitespace = False, args_charset = None, args_compiler = ''gcc'',
     args_show_errors = False, args_timeout = 2 \<rparr>"

text \<open>
  What a run gets from outside: the number of processors, the generator state each seed
  gives, what each task's worker gets from the operating system, the order in which
  the pool's workers reach the lock, after how many completed workers the user
  interrupts the run (never, for \<open>None\<close>), and the two floating-point computations of
  \<^verbatim>\<open>format_large_number\<close>.

  The lock makes the blocks under it run one after the other; the files of two workers
  are taken to have different names; so a pool's run is its workers run one after the other in the
  order in which they reach the lock. An exception of a worker is raised again in
  the main process by \<^verbatim>\<open>pool.map\<close> and \<^verbatim>\<open>pool.imap_unordered\<close>.
\<close>

record run_env =
  cpu_count :: nat
  rng_of_seed :: "int \<Rightarrow> rng"
  task_env :: "int \<Rightarrow> os_env"
  completion_order :: "task list \<Rightarrow> task list"
  interrupt_after :: "nat option"
  math_floor_log10 :: "int \<Rightarrow> int"
  format_mantissa :: "int \<Rightarrow> int \<Rightarrow> string"

fun run_workers :: "run_env \<Rightarrow> task list \<Rightarrow> (unit, world) prog" where
  "run_workers env [] = return ()"
| "run_workers env (t # ts) =
     seq (worker (rng_of_seed env) (task_env env (fst t)) t) (\<lambda>_. run_workers env ts)"

definition submit :: "task list \<Rightarrow> (unit, world) prog" where
  "submit ts w = (Inr (), w\<lparr>dispatched := dispatched w @ ts\<rparr>)"

text \<open>
  The tuple built at lines 212 to 214 and 230 to 232 for task id \<open>i\<close>: the timeout of
  the arguments is not in it.
\<close>

definition make_task :: "args \<Rightarrow> string \<Rightarrow> int \<Rightarrow> task" where
  "make_task a charset i = (i, args_byte_size a, charset, args_compiler a, args_show_errors a)"

text \<open>
  Lines 230 to 240, the fixed number of tasks:
  \<^verbatim>\<open>
  tasks = [(i, ...) for i in range(args.tasks)]
  try:
      with Pool(processes=cpu_count) as pool:
          for _ in pool.imap_unordered(worker, tasks): pass
  except KeyboardInterrupt:
      print("\nStopped by user")
  \<close>
  \<^verbatim>\<open>Pool\<close> raises \<^verbatim>\<open>ValueError\<close> for no processes.
\<close>

definition Pool :: "nat \<Rightarrow> (unit, world) prog" where
  "Pool processes =
     (if processes < 1 then raise (Exn ValueError ''Number of processes must be at least 1'')
      else return ())"

definition stopped_by_user :: "(unit, world) prog" where
  "stopped_by_user = print (Text (CHR 0x0A # ''Stopped by user''))"

definition fixed_tasks :: "args \<Rightarrow> string \<Rightarrow> task list" where
  "fixed_tasks a charset = map (\<lambda>i. make_task a charset (int i)) [0..<nat (args_tasks a)]"

definition fixed_mode :: "args \<Rightarrow> run_env \<Rightarrow> string \<Rightarrow> (unit, world) prog" where
  "fixed_mode a env charset w =
     (let tasks = fixed_tasks a charset
      in except_KeyboardInterrupt
           (seq (Pool (cpu_count env)) (\<lambda>_.
            seq (submit tasks) (\<lambda>_.
            case interrupt_after env of
              None \<Rightarrow> run_workers env (completion_order env tasks)
            | Some k \<Rightarrow>
                if k < length tasks
                then seq (run_workers env (take k (completion_order env tasks)))
                       (\<lambda>_. raise (Exn KeyboardInterrupt []))
                else run_workers env (completion_order env tasks))) w)
           stopped_by_user)"

text \<open>
  Lines 209 to 223, the loop of the unlimited mode:
  \<^verbatim>\<open>
  while True:
      batch_size = cpu_count * 10
      tasks = [(task_id + i, ...) for i in range(batch_size)]
      task_id += batch_size
      results = pool.map(worker, tasks)
      ...
      print(f"Processing speed: {rate:.2f} per second (total: {total_count.value})")
  \<close>
  \<open>mk i\<close> is the tuple of task \<open>i\<close>, \<open>task_id\<close> the id of the batch's first
  task, and \<open>remaining\<close> the number of workers that still complete before the interrupt. The
  loop ends by the interrupt or by a worker's exception; a run that is never
  interrupted and whose workers never raise does not return, and has the value
  \<open>None\<close>.
\<close>

partial_function (option) unlimited_loop ::
  "run_env \<Rightarrow> (int \<Rightarrow> task) \<Rightarrow> nat option \<Rightarrow> int \<Rightarrow> world \<Rightarrow> ((py_exn + unit) \<times> world) option" where
  "unlimited_loop env mk remaining task_id w =
     (let batch_size = cpu_count env * 10;
          tasks = map (\<lambda>i. mk (task_id + int i)) [0..<batch_size]
      in if (case remaining of None \<Rightarrow> False | Some k \<Rightarrow> k < batch_size)
         then Some (seq (submit tasks) (\<lambda>_.
                    seq (run_workers env (take (the remaining) (completion_order env tasks)))
                      (\<lambda>_. raise (Exn KeyboardInterrupt []))) w)
         else (case seq (submit tasks) (\<lambda>_. run_workers env (completion_order env tasks)) w of
                 (Inl e, w') \<Rightarrow> Some (Inl e, w')
               | (Inr u, w') \<Rightarrow>
                   (case print (ProcessingSpeed (total_count w')) w' of
                      (r, w'') \<Rightarrow>
                        unlimited_loop env mk
                          (map_option (\<lambda>k. k - batch_size) remaining)
                          (task_id + int batch_size) w'')))"

text \<open>Lines 202 to 226.\<close>

definition unlimited_mode :: "args \<Rightarrow> run_env \<Rightarrow> string \<Rightarrow> world \<Rightarrow> ((py_exn + unit) \<times> world) option" where
  "unlimited_mode a env charset w =
     (case seq (print (Text ''Running in unlimited task mode... (Press Ctrl+C to stop)''))
             (\<lambda>_. Pool (cpu_count env)) w of
        (Inl e, w') \<Rightarrow> Some (except_KeyboardInterrupt (Inl e, w') stopped_by_user)
      | (Inr u, w') \<Rightarrow>
          map_option (\<lambda>r. except_KeyboardInterrupt r stopped_by_user)
            (unlimited_loop env (make_task a charset) (interrupt_after env) 0 w'))"

text \<open>\<^verbatim>\<open>os.makedirs("successful_codes", exist_ok=True)\<close>\<close>

definition os_makedirs_exist_ok :: "path \<Rightarrow> (unit, world) prog" where
  "os_makedirs_exist_ok p w =
     (if os_path_exists p (files w)
      then (Inl (Exn FileExistsError (''[Errno 17] File exists: '' @ p)), w)
      else (Inr (), w\<lparr>dirs := insert p (dirs w)\<rparr>))"

text \<open>
  Lines 193 and 194 create the two counters, both 0:
  \<^verbatim>\<open>successful_count = manager.Value('i', 0)\<close>,
  \<^verbatim>\<open>total_count = manager.Value('i', 0)\<close>. A manager's value holds a Python int.
\<close>

definition create_counters :: "(unit, world) prog" where
  "create_counters w =
     (Inr (), w\<lparr>successful_count := 0, total_count := 0, counter_log := [(0, 0)]\<rparr>)"

text \<open>Lines 180 to 199: the banner, the shared counters, the output directory.\<close>

definition startup :: "args \<Rightarrow> run_env \<Rightarrow> string \<Rightarrow> py_number \<Rightarrow> (unit, world) prog" where
  "startup a env charset combinations =
     seq (print (Text (''Starting random C code compilation test with ''
                       @ str_int (args_byte_size a) @ '' bytes''))) (\<lambda>_.
     seq (print (Text (''Character set size: '' @ str_int (int (length charset))
                       @ '' characters''))) (\<lambda>_.
     seq (print (Text (''Character set: '' @ take 50 charset
                       @ (if length charset > 50 then ''...'' else [])))) (\<lambda>_.
     seq (print (Text (''Compiler: '' @ args_compiler a))) (\<lambda>_.
     seq (print (case combinations of
                   PyInt n \<Rightarrow> Text (''Total possible combinations: ''
                       @ format_large_number (math_floor_log10 env) (format_mantissa env) n)
                 | PyFloatPow k n \<Rightarrow> TotalCombinationsFloat combinations)) (\<lambda>_.
     seq (print (Text (''Available CPU cores: '' @ str_int (int (cpu_count env))))) (\<lambda>_.
     seq create_counters (\<lambda>_.
     os_makedirs_exist_ok ''successful_codes'')))))))"

text \<open>
  Lines 243 to 271 print the totals, the rates and the estimate, and catch their own
  exceptions.
\<close>

definition print_results :: "py_number \<Rightarrow> (unit, world) prog" where
  "print_results combinations w =
     print (Results (total_count w) (successful_count w) combinations) w"

text \<open>
  \<^verbatim>\<open>main\<close>, with the parsed arguments as its input; \<open>main_charset\<close> is the character
  set of lines 163 to 170. The result is \<open>None\<close> when the run does not return.
\<close>

definition main_charset :: "args \<Rightarrow> string" where
  "main_charset a =
     get_charset (\<not> args_no_lowercase a) (\<not> args_no_uppercase a) (\<not> args_no_digits a)
       (\<not> args_no_symbols a) (args_whitespace a) (args_charset a)"

definition main :: "args \<Rightarrow> run_env \<Rightarrow> world \<Rightarrow> ((py_exn + unit) \<times> world) option" where
  "main a env w =
     (let charset = main_charset a
      in if charset = []
         then Some (print (Text ''Error: At least one character type must be included'') w)
         else
           (case calculate_combinations (int (length charset)) (args_byte_size a) of
              Inl e \<Rightarrow> Some (Inl e, w)
            | Inr combinations \<Rightarrow>
                (case startup a env charset combinations w of
                   (Inl e, w') \<Rightarrow> Some (Inl e, w')
                 | (Inr u, w') \<Rightarrow>
                     map_option (\<lambda>r. and_then r (\<lambda>_. print_results combinations))
                       (if args_tasks a = - 1
                        then unlimited_mode a env charset w'
                        else Some (fixed_mode a env charset w')))))"

section \<open>Notions used to state the properties\<close>

text \<open>The compiler process exited with status zero.\<close>

definition exited_zero :: "run_result \<Rightarrow> bool" where
  "exited_zero r =
     (case r of CompletedProcess returncode out err \<Rightarrow> returncode = 0 | Raises e \<Rightarrow> False)"

text \<open>
  The compilation failed: a non-zero exit, or an exception of \<^verbatim>\<open>subprocess.run\<close>
  (the timeout, a launch error).
\<close>

definition compilation_failed :: "run_result \<Rightarrow> bool" where
  "compilation_failed r =
     (case r of
        CompletedProcess returncode out err \<Rightarrow> returncode \<noteq> 0
      | Raises e \<Rightarrow> is_Exception e)"

text \<open>The diagnostic text of a run: its standard error, or the exception's text.\<close>

definition diagnostic :: "run_result \<Rightarrow> string" where
  "diagnostic r =
     (case r of CompletedProcess returncode out err \<Rightarrow> err | Raises e \<Rightarrow> str_exn e)"

text \<open>
  The history of the counters is well-formed: it ends with their current values, it
  never decreases in either component, and successes are between 0 and the attempts
  in each of its entries.
\<close>

definition nondecreasing :: "(int \<times> int) list \<Rightarrow> bool" where
  "nondecreasing log = sorted_wrt (\<lambda>p q. fst p \<le> fst q \<and> snd p \<le> snd q) log"

definition counters_inv :: "world \<Rightarrow> bool" where
  "counters_inv w =
     (counter_log w \<noteq> []
      \<and> last (counter_log w) = (total_count w, successful_count w)
      \<and> nondecreasing (counter_log w)
      \<and> list_all (\<lambda>(total, successes). 0 \<le> successes \<and> successes \<le> total) (counter_log w))"

text \<open>
  What the block under the lock does to the counters and their history, for a probe
  that succeeded or not.
\<close>

definition after_lock :: "bool \<Rightarrow> world \<Rightarrow> world" where
  "after_lock success w =
     w\<lparr>total_count := total_count w + 1,
       successful_count := successful_count w + (if success then 1 else 0),
       counter_log := counter_log w @ (total_count w + 1, successful_count w)
          # (if success then [(total_count w + 1, successful_count w + 1)] else [])\<rparr>"

text \<open>
  A statement keeps the counters when, from a well-formed history, it leaves a
  well-formed history that extends the one it found.
\<close>

definition keeps_counters :: "('a, world) prog \<Rightarrow> bool" where
  "keeps_counters m =
     (\<forall>w. counters_inv w \<longrightarrow>
        counters_inv (snd (m w)) \<and> prefix (counter_log w) (counter_log (snd (m w))))"

text \<open>
  The operating system lets a worker's probe end: the source file can be written, and
  \<^verbatim>\<open>subprocess.run\<close> returns or raises an \<^verbatim>\<open>Exception\<close> (the worker is not
  interrupted).
\<close>

definition probe_ends :: "os_env \<Rightarrow> bool" where
  "probe_ends env =
     (open_raises env = None
      \<and> (\<forall>argv t e. fst (subprocess_run env argv t) = Raises e \<longrightarrow> is_Exception e))"

section \<open>Concrete runs\<close>

text \<open>
  Four operating-system answers for a worker of process 7: a compiler that reports an
  error, one that does not end in time and leaves a partial object file, one that
  succeeds, and one that succeeds after 5 time units and not before.
\<close>

definition failing_env :: os_env where
  "failing_env = \<lparr> getpid = 7, rng_before = sconst 0,
     uuid4_hex = ''0123456789abcdef0123456789abcdef'', open_raises = None,
     subprocess_run = (\<lambda>argv t. (CompletedProcess 1 [] ''error: expected expression'', None)) \<rparr>"

definition timing_out_env :: os_env where
  "timing_out_env = \<lparr> getpid = 7, rng_before = sconst 0,
     uuid4_hex = ''0123456789abcdef0123456789abcdef'', open_raises = None,
     subprocess_run = (\<lambda>argv t. (Raises (Exn TimeoutExpired ''timed out''), Some ''partial'')) \<rparr>"

definition succeeding_env :: os_env where
  "succeeding_env = \<lparr> getpid = 7, rng_before = sconst 0,
     uuid4_hex = ''0123456789abcdef0123456789abcdef'', open_raises = None,
     subprocess_run = (\<lambda>argv t. (CompletedProcess 0 [] [], Some ''object'')) \<rparr>"

definition slow_compiler_env :: os_env where
  "slow_compiler_env = \<lparr> getpid = 7, rng_before = sconst 0,
     uuid4_hex = ''0123456789abcdef0123456789abcdef'', open_raises = None,
     subprocess_run = (\<lambda>argv t.
        if t < 5 then (Raises (Exn TimeoutExpired ''timed out''), None)
        else (CompletedProcess 0 [] [], Some ''object'')) \<rparr>"

text \<open>A world with no files, counters at 0 and nothing printed.\<close>

definition empty_world :: world where
  "empty_world = \<lparr> files = Map.empty, dirs = {}, total_count = 0, successful_count = 0,
     counter_log = [(0, 0)], stdout = [], dispatched = [] \<rparr>"

text \<open>
  A run on two processors whose workers end in the reverse order of their tasks and
  whose compiler succeeds for the tasks with an even id: three tasks, and no character
  class at all.
\<close>

definition example_env :: run_env where
  "example_env = \<lparr> cpu_count = 2, rng_of_seed = (\<lambda>s. sconst 0),
     task_env = (\<lambda>i. if even i then succeeding_env else failing_env),
     completion_order = rev, interrupt_after = None,
     math_floor_log10 = (\<lambda>n. 0), format_mantissa = (\<lambda>n e. []) \<rparr>"

definition three_tasks :: args where
  "three_tasks = default_args\<lparr>args_tasks := 3\<rparr>"

definition no_characters :: args where
  "no_characters = default_args\<lparr>args_no_lowercase := True, args_no_uppercase := True,
     args_no_digits := True, args_no_symbols := True\<rparr>"


section \<open>Properties of the character set\<close>

text \<open>
  Claim C10. Whatever the inclusion flags are, \<^verbatim>\<open>get_charset\<close> with the empty string
  as custom character set returns what it returns with no custom character set, the
  set assembled from the flags; a custom character set that is not empty is returned
  as it is, whatever the flags are.
\<close>

theorem get_charset_custom:
  "get_charset lo up di sy ws (Some []) = get_charset lo up di sy ws None
   \<and> get_charset lo up di sy ws None =
         (if lo then ascii_lowercase else []) @ (if up then ascii_uppercase else [])
         @ (if di then digits else []) @ (if sy then symbols else [])
         @ (if ws then whitespace_chars else [])
   \<and> (cs \<noteq> [] \<longrightarrow> get_charset lo up di sy ws (Some cs) = cs)"
  by (simp add: get_charset_def)

theorem get_charset_custom_witness:
  "get_charset False True False False False (Some []) = ascii_uppercase
   \<and> ''xy'' \<noteq> [] \<and> get_charset False True False False False (Some ''xy'') = ''xy''"
  using get_charset_custom [of False True False False False "''xy''"]
  by simp


section \<open>Properties of the content generator\<close>

lemma choices_ok:
  "charset \<noteq> [] \<Longrightarrow>
     \<exists>s g'. choices n charset g = Inr (s, g') \<and> length s = n \<and> set s \<subseteq> set charset"
proof (induction n arbitrary: g)
  case 0
  then show ?case by simp
next
  case (Suc n)
  from Suc.IH [OF Suc.prems, of "stl g"] obtain s g'
    where s: "choices n charset (stl g) = Inr (s, g')" "length s = n" "set s \<subseteq> set charset"
    by blast
  have "shd g mod length charset < length charset"
    using Suc.prems by simp
  then have "charset ! (shd g mod length charset) \<in> set charset"
    by (rule nth_mem)
  with s Suc.prems show ?case
    by (simp add: random_choice_def)
qed

text \<open>
  Claim C2. For a character set that is not empty and a length \<open>N\<close> that is not
  negative, \<^verbatim>\<open>generate_random_c_content\<close> returns, whatever the random generator
  draws, a string of exactly \<open>N\<close> characters, each of them in the character set; for
  \<open>N = 0\<close> it is the empty string.
\<close>

theorem generate_random_c_content_length_and_alphabet:
  "charset \<noteq> [] \<Longrightarrow> 0 \<le> N \<Longrightarrow>
     \<exists>s g'. generate_random_c_content N charset g = Inr (s, g')
       \<and> int (length s) = N \<and> set s \<subseteq> set charset \<and> (N = 0 \<longrightarrow> s = [])"
proof -
  assume ne: "charset \<noteq> []" and N: "0 \<le> N"
  from choices_ok [OF ne, of "nat N" g] obtain s g'
    where "choices (nat N) charset g = Inr (s, g')" "length s = nat N" "set s \<subseteq> set charset"
    by blast
  with N show ?thesis
    by (auto simp: generate_random_c_content_def)
qed

theorem generate_random_c_content_length_and_alphabet_witness:
  "''ab'' \<noteq> [] \<and> (0::int) \<le> 3
   \<and> (\<exists>s g'. generate_random_c_content 3 ''ab'' (siterate Suc 0) = Inr (s, g')
       \<and> int (length s) = 3 \<and> set s \<subseteq> set ''ab'' \<and> ((3::int) = 0 \<longrightarrow> s = []))"
  using generate_random_c_content_length_and_alphabet [of "''ab''" 3 "siterate Suc 0"]
  by simp


section \<open>Combinations and their formatting\<close>



















section \<open>Properties of the compile prober\<close>

lemma c_file_neq_o_file [simp]: "f @ ''.c'' \<noteq> f @ ''.o''" "f @ ''.o'' \<noteq> f @ ''.c''"
  by simp_all

lemma object_file_of_c [simp]: "object_file_of (f @ ''.c'') = f @ ''.o''"
  by (simp add: object_file_of_def)

lemmas prog_defs = seq_def return_def raise_def try_except_Exception_def os_remove_def
  remove_if_exists_def os_path_exists_def open_write_def run_compiler_def

lemma test_compilation_success:
  assumes "open_raises env = None"
    and "subprocess_run env [compiler, ''-c'', filename_of pid env @ ''.c''] t
           = (CompletedProcess 0 out err, obj)"
  shows "test_compilation content pid compiler t env fs
           = (Inr (True, content, Some (filename_of pid env @ ''.c''), []),
              (fs(filename_of pid env @ ''.c'' \<mapsto> C_TEMPLATE content))
                (filename_of pid env @ ''.o'' := None))"
  using assms
  by (cases obj) (auto simp: test_compilation_def Let_def prog_defs fun_upd_twist)

lemma test_compilation_nonzero:
  assumes "open_raises env = None"
    and "subprocess_run env [compiler, ''-c'', filename_of pid env @ ''.c''] t
           = (CompletedProcess returncode out err, obj)"
    and "returncode \<noteq> 0"
  shows "test_compilation content pid compiler t env fs
           = (Inr (False, content, None, err),
              fs(filename_of pid env @ ''.c'' := None, filename_of pid env @ ''.o'' := None))"
  using assms
  by (cases obj) (auto simp: test_compilation_def Let_def prog_defs fun_upd_twist)

lemma test_compilation_raises:
  assumes "open_raises env = None"
    and "subprocess_run env [compiler, ''-c'', filename_of pid env @ ''.c''] t
           = (Raises e, obj)"
    and "is_Exception e"
  shows "test_compilation content pid compiler t env fs
           = (Inr (False, content, None, str_exn e),
              fs(filename_of pid env @ ''.c'' := None, filename_of pid env @ ''.o'' := None))"
  using assms
  by (cases obj) (auto simp: test_compilation_def Let_def prog_defs fun_upd_twist)

lemma test_compilation_interrupted:
  assumes "open_raises env = None"
    and "subprocess_run env [compiler, ''-c'', filename_of pid env @ ''.c''] t
           = (Raises e, obj)"
    and "\<not> is_Exception e"
  shows "fst (test_compilation content pid compiler t env fs) = Inl e"
  using assms
  by (cases obj) (auto simp: test_compilation_def Let_def prog_defs fun_upd_twist)

lemma test_compilation_open_raises:
  assumes "open_raises env = Some e"
  shows "test_compilation content pid compiler t env fs = (Inl e, fs)"
  using assms
  by (auto simp: test_compilation_def Let_def prog_defs)

lemma test_compilation_failed:
  assumes o: "open_raises env = None"
    and f: "compilation_failed (fst (subprocess_run env [compiler, ''-c'', filename_of pid env @ ''.c''] t))"
  shows "test_compilation content pid compiler t env fs
           = (Inr (False, content, None,
                   diagnostic (fst (subprocess_run env [compiler, ''-c'', filename_of pid env @ ''.c''] t))),
              fs(filename_of pid env @ ''.c'' := None, filename_of pid env @ ''.o'' := None))"
proof -
  obtain r obj
    where run: "subprocess_run env [compiler, ''-c'', filename_of pid env @ ''.c''] t = (r, obj)"
    by (cases "subprocess_run env [compiler, ''-c'', filename_of pid env @ ''.c''] t")
  show ?thesis
  proof (cases r)
    case (CompletedProcess returncode out err)
    with f run have "returncode \<noteq> 0"
      by (simp add: compilation_failed_def)
    with o run CompletedProcess show ?thesis
      by (simp add: test_compilation_nonzero diagnostic_def)
  next
    case (Raises e)
    with f run have "is_Exception e"
      by (simp add: compilation_failed_def)
    with o run Raises show ?thesis
      by (simp add: test_compilation_raises diagnostic_def)
  qed
qed

text \<open>
  Claim C4. When the source file could be written and the compilation fails (the
  compiler exits with a non-zero status, or \<^verbatim>\<open>subprocess.run\<close> raises for the timeout
  or because the compiler cannot be launched), \<^verbatim>\<open>test_compilation\<close> returns a failure
  and the files it leaves are the files it found without the source file and without
  the object file: neither of the two is left behind.
\<close>

theorem failed_probe_leaves_no_files:
  assumes "open_raises env = None"
    and "compilation_failed
           (fst (subprocess_run env [compiler, ''-c'', filename_of pid env @ ''.c''] t))"
  shows "\<exists>res fs'. test_compilation content pid compiler t env fs = (Inr res, fs')
           \<and> \<not> fst res
           \<and> fs' = fs(filename_of pid env @ ''.c'' := None, filename_of pid env @ ''.o'' := None)
           \<and> fs' (filename_of pid env @ ''.c'') = None
           \<and> fs' (filename_of pid env @ ''.o'') = None"
  using test_compilation_failed [OF assms, of content fs] by simp

theorem failed_probe_leaves_no_files_witness:
  "open_raises timing_out_env = None
   \<and> compilation_failed
        (fst (subprocess_run timing_out_env
               [''gcc'', ''-c'', filename_of 7 timing_out_env @ ''.c''] 2))
   \<and> (\<exists>res fs'. test_compilation ''{'' 7 ''gcc'' 2 timing_out_env Map.empty = (Inr res, fs')
           \<and> \<not> fst res
           \<and> fs' = Map.empty(filename_of 7 timing_out_env @ ''.c'' := None,
                              filename_of 7 timing_out_env @ ''.o'' := None)
           \<and> fs' (filename_of 7 timing_out_env @ ''.c'') = None
           \<and> fs' (filename_of 7 timing_out_env @ ''.o'') = None)"
proof -
  have o: "open_raises timing_out_env = None"
    by (simp add: timing_out_env_def)
  have f: "compilation_failed
        (fst (subprocess_run timing_out_env
               [''gcc'', ''-c'', filename_of 7 timing_out_env @ ''.c''] 2))"
    by (simp add: timing_out_env_def compilation_failed_def)
  from o f failed_probe_leaves_no_files [OF o f, of "''{''" Map.empty]
  show ?thesis by blast
qed

text \<open>
  Claim C5. When the source file could be written and \<^verbatim>\<open>subprocess.run\<close> returns or
  raises an \<^verbatim>\<open>Exception\<close>, \<^verbatim>\<open>test_compilation\<close> returns a result, whose success flag
  is true exactly when the compiler process exited with status zero. On success the
  source file is on disk with the program text and the object file is not; the
  result has a file path only on success (the source file's), and an error text that
  is not empty only on failure.
\<close>

theorem probe_succeeds_iff_exit_zero:
  assumes o: "open_raises env = None"
    and e: "\<forall>e. fst (subprocess_run env [compiler, ''-c'', filename_of pid env @ ''.c''] t) = Raises e
              \<longrightarrow> is_Exception e"
  shows "\<exists>success filename error_message fs'.
           test_compilation content pid compiler t env fs
             = (Inr (success, content, filename, error_message), fs')
           \<and> (success \<longleftrightarrow>
                exited_zero (fst (subprocess_run env [compiler, ''-c'', filename_of pid env @ ''.c''] t)))
           \<and> (success \<longrightarrow> fs' (filename_of pid env @ ''.c'') = Some (C_TEMPLATE content)
                          \<and> fs' (filename_of pid env @ ''.o'') = None
                          \<and> filename = Some (filename_of pid env @ ''.c''))
           \<and> (filename \<noteq> None \<longrightarrow> success)
           \<and> (error_message \<noteq> [] \<longrightarrow> \<not> success)"
proof -
  obtain r obj
    where run: "subprocess_run env [compiler, ''-c'', filename_of pid env @ ''.c''] t = (r, obj)"
    by (cases "subprocess_run env [compiler, ''-c'', filename_of pid env @ ''.c''] t")
  show ?thesis
  proof (cases r)
    case (CompletedProcess returncode out err)
    show ?thesis
    proof (cases "returncode = 0")
      case True
      with o run CompletedProcess show ?thesis
        by (auto simp: test_compilation_success exited_zero_def)
    next
      case False
      with o run CompletedProcess show ?thesis
        by (auto simp: test_compilation_nonzero exited_zero_def)
    qed
  next
    case (Raises x)
    with e run have "is_Exception x" by simp
    with o run Raises show ?thesis
      by (auto simp: test_compilation_raises exited_zero_def)
  qed
qed

theorem probe_succeeds_iff_exit_zero_witness:
  "open_raises succeeding_env = None
   \<and> exited_zero (fst (subprocess_run succeeding_env
                 [''gcc'', ''-c'', filename_of 7 succeeding_env @ ''.c''] 2))
   \<and> (\<exists>filename error_message fs'.
         test_compilation '';'' 7 ''gcc'' 2 succeeding_env Map.empty
           = (Inr (True, '';'', filename, error_message), fs')
         \<and> fs' (filename_of 7 succeeding_env @ ''.c'') = Some (C_TEMPLATE '';'')
         \<and> fs' (filename_of 7 succeeding_env @ ''.o'') = None
         \<and> filename = Some (filename_of 7 succeeding_env @ ''.c'')
         \<and> error_message = [])"
proof -
  have o: "open_raises succeeding_env = None"
    by (simp add: succeeding_env_def)
  have e: "\<forall>e. fst (subprocess_run succeeding_env
                 [''gcc'', ''-c'', filename_of 7 succeeding_env @ ''.c''] 2) = Raises e
          \<longrightarrow> is_Exception e"
    by (simp add: succeeding_env_def)
  have z: "exited_zero (fst (subprocess_run succeeding_env
                 [''gcc'', ''-c'', filename_of 7 succeeding_env @ ''.c''] 2))"
    by (simp add: succeeding_env_def exited_zero_def)
  from probe_succeeds_iff_exit_zero [OF o e, of "'';''" Map.empty]
  obtain success filename error_message fs'
    where r: "test_compilation '';'' 7 ''gcc'' 2 succeeding_env Map.empty
                = (Inr (success, '';'', filename, error_message), fs')"
      and s: "success \<longleftrightarrow> exited_zero (fst (subprocess_run succeeding_env
                 [''gcc'', ''-c'', filename_of 7 succeeding_env @ ''.c''] 2))"
      and k: "success \<longrightarrow> fs' (filename_of 7 succeeding_env @ ''.c'') = Some (C_TEMPLATE '';'')
                          \<and> fs' (filename_of 7 succeeding_env @ ''.o'') = None
                          \<and> filename = Some (filename_of 7 succeeding_env @ ''.c'')"
      and m: "error_message \<noteq> [] \<longrightarrow> \<not> success"
    by blast
  from s z have "success" by simp
  with r k m o z show ?thesis by simp
qed


section \<open>Properties of the shared counters\<close>

text \<open>
  One write to a counter appends one entry to the history; the block under the lock
  writes the attempts, then the successes if the probe succeeded.
\<close>

lemma nondecreasing_snoc:
  "nondecreasing (log @ [q]) \<longleftrightarrow>
     nondecreasing log \<and> (\<forall>p \<in> set log. fst p \<le> fst q \<and> snd p \<le> snd q)"
  by (auto simp: nondecreasing_def sorted_wrt_append)

lemma nondecreasing_last:
  assumes "nondecreasing log" "log \<noteq> []" "p \<in> set log"
  shows "fst p \<le> fst (last log) \<and> snd p \<le> snd (last log)"
proof -
  obtain xs x where log: "log = xs @ [x]"
    using assms(2) by (cases log rule: rev_cases) auto
  with assms show ?thesis
    by (auto simp: nondecreasing_def sorted_wrt_append)
qed

lemma counters_inv_le:
  "counters_inv w \<Longrightarrow> 0 \<le> successful_count w \<and> successful_count w \<le> total_count w"
  using last_in_set [of "counter_log w"]
  by (auto simp: counters_inv_def list_all_iff)

lemma counters_inv_bound:
  assumes "counters_inv w" "p \<in> set (counter_log w)"
  shows "fst p \<le> total_count w \<and> snd p \<le> successful_count w"
  using assms nondecreasing_last [of "counter_log w" p]
  by (simp add: counters_inv_def)

lemma with_counter_lock_effect:
  "\<exists>r w'. with_counter_lock success filename msg se w = (r, w')
     \<and> w' = (after_lock success w)\<lparr>stdout := stdout w'\<rparr>
     \<and> (total_count w \<noteq> - 1 \<longrightarrow> r = Inr ())"
  by (auto simp: with_counter_lock_def seq_def return_def raise_def print_def
      write_total_def write_successful_def after_lock_def)

lemma counters_inv_stdout [simp]: "counters_inv (w\<lparr>stdout := out\<rparr>) = counters_inv w"
  by (simp add: counters_inv_def)

lemma counters_inv_after_lock:
  assumes "counters_inv w"
  shows "counters_inv (after_lock success w)"
proof -
  note le = counters_inv_le [OF assms]
  have b: "\<forall>p \<in> set (counter_log w). fst p \<le> total_count w \<and> snd p \<le> successful_count w"
    using counters_inv_bound [OF assms] by blast
  have n1: "nondecreasing (counter_log w @ [(total_count w + 1, successful_count w)])"
    using assms b by (fastforce simp: nondecreasing_snoc counters_inv_def)
  have n2: "nondecreasing ((counter_log w @ [(total_count w + 1, successful_count w)])
                @ [(total_count w + 1, successful_count w + 1)])"
    unfolding nondecreasing_snoc [of "counter_log w @ [(total_count w + 1, successful_count w)]"]
    using n1 b by fastforce
  show ?thesis
    using assms le n1 n2
    by (simp add: counters_inv_def after_lock_def)
qed


lemma with_counter_lock_inv:
  assumes "counters_inv w" "with_counter_lock success filename msg se w = (r, w')"
  shows "counters_inv w'"
proof -
  from with_counter_lock_effect [of success filename msg se w] assms(2)
  have "w' = (after_lock success w)\<lparr>stdout := stdout w'\<rparr>"
    by auto
  then have "counters_inv w' = counters_inv (after_lock success w)"
    using counters_inv_stdout [of "stdout w'" "after_lock success w"] by simp
  with counters_inv_after_lock [OF assms(1)] show ?thesis by simp
qed

text \<open>
  The worker, unfolded: an exception of the generator or of the prober ends it before
  the counters are touched; otherwise the block under the lock counts the probe.
\<close>

lemma worker_unfold:
  "worker seeded env (task_id, byte_size, charset, compiler, show_errors) w =
     (case worker_content seeded env (task_id, byte_size, charset, compiler, show_errors) of
        Inl e \<Rightarrow> (Inl e, w)
      | Inr content \<Rightarrow>
          (case test_compilation content (getpid env) compiler 2 env (files w) of
             (Inl e, fs') \<Rightarrow> (Inl e, w\<lparr>files := fs'\<rparr>)
           | (Inr (success, content', filename, error_message), fs') \<Rightarrow>
               (case with_counter_lock success filename error_message show_errors
                       (w\<lparr>files := fs'\<rparr>) of
                  (Inl e, w') \<Rightarrow> (Inl e, w')
                | (Inr u, w') \<Rightarrow> (Inr success, w'))))"
  by (simp add: worker_def seq_def on_files_def Let_def return_def
      split: sum.splits prod.splits)

lemma counters_inv_files [simp]: "counters_inv (w\<lparr>files := fs\<rparr>) = counters_inv w"
  by (simp add: counters_inv_def)

lemma after_lock_files:
  "total_count (after_lock s (w\<lparr>files := fs\<rparr>)) = total_count w + 1"
  "successful_count (after_lock s (w\<lparr>files := fs\<rparr>)) = successful_count w + (if s then 1 else 0)"
  "prefix (counter_log w) (counter_log (after_lock s (w\<lparr>files := fs\<rparr>)))"
  "dispatched (after_lock s (w\<lparr>files := fs\<rparr>)) = dispatched w"
  by (simp_all add: after_lock_def)

lemma worker_counters:
  assumes inv: "counters_inv w"
    and run: "worker seeded env task w = (r, w')"
  shows "counters_inv w' \<and> prefix (counter_log w) (counter_log w')
         \<and> dispatched w' = dispatched w
         \<and> (\<forall>s. r = Inr s \<longrightarrow> total_count w' = total_count w + 1
                \<and> successful_count w' = successful_count w + (if s then 1 else 0))"
proof -
  obtain task_id byte_size charset compiler show_errors
    where task: "task = (task_id, byte_size, charset, compiler, show_errors)"
    by (cases task)
  show ?thesis
  proof (cases "worker_content seeded env task")
    case (Inl e)
    with run task inv show ?thesis
      by (auto simp: worker_unfold)
  next
    case (Inr content)
    obtain pr fs' where tc: "test_compilation content (getpid env) compiler 2 env (files w) = (pr, fs')"
      by (cases "test_compilation content (getpid env) compiler 2 env (files w)")
    show ?thesis
    proof (cases pr)
      case (Inl e)
      with run task inv Inr tc show ?thesis
        by (auto simp: worker_unfold)
    next
      case res: (Inr res)
      obtain success content' filename error_message
        where res': "res = (success, content', filename, error_message)"
        by (cases res)
      let ?w1 = "w\<lparr>files := fs'\<rparr>"
      from with_counter_lock_effect [of success filename error_message show_errors ?w1]
      obtain r2 w2 where l: "with_counter_lock success filename error_message show_errors ?w1 = (r2, w2)"
        and w2: "w2 = (after_lock success ?w1)\<lparr>stdout := stdout w2\<rparr>"
        by blast
      have inv2: "counters_inv w2"
        using with_counter_lock_inv [OF _ l] inv by simp
      have f: "total_count w2 = total_count w + 1"
        "successful_count w2 = successful_count w + (if success then 1 else 0)"
        "prefix (counter_log w) (counter_log w2)"
        "dispatched w2 = dispatched w"
        using after_lock_files [where s = success and w = w and fs = fs'] by (subst w2, simp)+
      have "w' = w2 \<and> (\<forall>s. r = Inr s \<longrightarrow> s = success)"
        using run task Inr tc res res' l
        by (auto simp: worker_unfold split: sum.splits)
      with inv2 f show ?thesis by simp
    qed
  qed
qed

lemma run_workers_counters:
  assumes "counters_inv w" and "run_workers env ts w = (r, w')"
  shows "counters_inv w' \<and> prefix (counter_log w) (counter_log w')
         \<and> dispatched w' = dispatched w
         \<and> (r = Inr () \<longrightarrow> total_count w' = total_count w + int (length ts))"
  using assms
proof (induction ts arbitrary: w)
  case Nil
  then show ?case by (simp add: return_def)
next
  case (Cons t ts)
  obtain r1 w1 where w1: "worker (rng_of_seed env) (task_env env (fst t)) t w = (r1, w1)"
    by (cases "worker (rng_of_seed env) (task_env env (fst t)) t w")
  note c1 = worker_counters [OF Cons.prems(1) w1]
  show ?case
  proof (cases r1)
    case (Inl e)
    with Cons.prems(2) w1 c1 show ?thesis
      by (auto simp: seq_def)
  next
    case (Inr s)
    with Cons.prems(2) w1 have rest: "run_workers env ts w1 = (r, w')"
      by (simp add: seq_def)
    from Cons.IH [OF _ rest] c1 Inr show ?thesis
      by (auto intro: prefix_order.trans)
  qed
qed

section \<open>The worker returns\<close>

lemma worker_content_ok:
  assumes "charset \<noteq> []"
  shows "\<exists>content. worker_content seeded env (task_id, byte_size, charset, compiler, show_errors)
            = Inr content"
proof -
  from choices_ok [OF assms]
  obtain s g' where "choices (nat byte_size) charset (seeded (worker_seed (getpid env) task_id)) = Inr (s, g')"
    by blast
  then show ?thesis
    by (simp add: worker_content_def generate_random_c_content_def random_seed_def)
qed

lemma test_compilation_returns:
  assumes o: "open_raises env = None"
    and e: "\<forall>e. fst (subprocess_run env [compiler, ''-c'', filename_of pid env @ ''.c''] t) = Raises e
              \<longrightarrow> is_Exception e"
  shows "\<exists>success filename error_message fs'.
           test_compilation content pid compiler t env fs
             = (Inr (success, content, filename, error_message), fs')"
proof -
  obtain r obj
    where run: "subprocess_run env [compiler, ''-c'', filename_of pid env @ ''.c''] t = (r, obj)"
    by (cases "subprocess_run env [compiler, ''-c'', filename_of pid env @ ''.c''] t")
  show ?thesis
  proof (cases r)
    case (CompletedProcess returncode out err)
    with o run show ?thesis
      by (cases "returncode = 0") (auto simp: test_compilation_success test_compilation_nonzero)
  next
    case (Raises x)
    with e run have "is_Exception x" by simp
    with o run Raises show ?thesis
      by (auto simp: test_compilation_raises)
  qed
qed

lemma worker_result:
  assumes c: "worker_content seeded env (task_id, byte_size, charset, compiler, show_errors) = Inr content"
    and t: "test_compilation content (getpid env) compiler 2 env (files w)
              = (Inr (success, content', filename, error_message), fs')"
    and z: "total_count w \<noteq> - 1"
  shows "\<exists>w'. worker seeded env (task_id, byte_size, charset, compiler, show_errors) w
                 = (Inr success, w')"
proof -
  from with_counter_lock_effect [of success filename error_message show_errors "w\<lparr>files := fs'\<rparr>"] z
  obtain w2 where "with_counter_lock success filename error_message show_errors (w\<lparr>files := fs'\<rparr>)
      = (Inr (), w2)"
    by auto
  with c t show ?thesis
    by (simp add: worker_unfold)
qed

lemma worker_returns:
  assumes p: "probe_ends env" and c: "charset \<noteq> []" and z: "total_count w \<noteq> - 1"
  shows "\<exists>s w'. worker seeded env (task_id, byte_size, charset, compiler, show_errors) w
                 = (Inr s, w')"
proof -
  from worker_content_ok [OF c]
  obtain content where wc: "worker_content seeded env (task_id, byte_size, charset, compiler, show_errors) = Inr content"
    by blast
  from p have o: "open_raises env = None"
    and e: "\<forall>e. fst (subprocess_run env [compiler, ''-c'', filename_of (getpid env) env @ ''.c''] 2) = Raises e
              \<longrightarrow> is_Exception e"
    by (simp_all add: probe_ends_def)
  from test_compilation_returns [OF o e, of content "files w"]
  obtain success filename error_message fs'
    where "test_compilation content (getpid env) compiler 2 env (files w)
             = (Inr (success, content, filename, error_message), fs')"
    by blast
  from worker_result [OF wc this z] show ?thesis by blast
qed

text \<open>
  Claim C6. When the source file could be written and the compilation fails (a
  non-zero exit of the compiler, the timeout, or a failure to launch the compiler,
  the last two being exceptions of \<^verbatim>\<open>subprocess.run\<close>), \<^verbatim>\<open>test_compilation\<close> raises
  nothing: it returns a result whose success flag is false and whose text is the
  diagnostic (the compiler's standard error, or the text of the exception). The
  worker of such a probe, run from counters that are not negative, raises nothing
  either and returns false.
\<close>

theorem compile_failures_are_results:
  assumes o: "open_raises env = None"
    and f: "compilation_failed
              (fst (subprocess_run env [compiler, ''-c'', filename_of pid env @ ''.c''] t))"
  shows "(\<exists>fs'. test_compilation content pid compiler t env fs
            = (Inr (False, content, None,
                    diagnostic (fst (subprocess_run env
                       [compiler, ''-c'', filename_of pid env @ ''.c''] t))), fs'))
         \<and> (pid = getpid env \<and> t = 2 \<and> 0 \<le> total_count w
              \<and> worker_content seeded env (task_id, byte_size, charset, compiler, show_errors)
                  = Inr content
              \<longrightarrow> (\<exists>w'. worker seeded env (task_id, byte_size, charset, compiler, show_errors) w
                          = (Inr False, w')))"
proof (intro conjI impI)
  show "\<exists>fs'. test_compilation content pid compiler t env fs
            = (Inr (False, content, None,
                    diagnostic (fst (subprocess_run env
                       [compiler, ''-c'', filename_of pid env @ ''.c''] t))), fs')"
    using test_compilation_failed [OF o f, of content fs] by simp
next
  assume a: "pid = getpid env \<and> t = 2 \<and> 0 \<le> total_count w
              \<and> worker_content seeded env (task_id, byte_size, charset, compiler, show_errors)
                  = Inr content"
  then have z: "total_count w \<noteq> - 1" by simp
  from a f have f2: "compilation_failed
              (fst (subprocess_run env [compiler, ''-c'', filename_of (getpid env) env @ ''.c''] 2))"
    by simp
  from a have wc: "worker_content seeded env (task_id, byte_size, charset, compiler, show_errors)
                  = Inr content" by simp
  from worker_result [OF wc test_compilation_failed [OF o f2, of content "files w"] z]
  show "\<exists>w'. worker seeded env (task_id, byte_size, charset, compiler, show_errors) w
                          = (Inr False, w')" .
qed

lemma worker_content_example:
  "worker_content (\<lambda>s. sconst 0) failing_env (0, 1, ''{'', ''gcc'', False) = Inr ''{''"
  by (simp add: worker_content_def generate_random_c_content_def random_seed_def
      random_choice_def)

theorem compile_failures_are_results_witness:
  "open_raises failing_env = None
   \<and> compilation_failed
        (fst (subprocess_run failing_env [''gcc'', ''-c'', filename_of 7 failing_env @ ''.c''] 2))
   \<and> (\<exists>fs'. test_compilation ''{'' 7 ''gcc'' 2 failing_env Map.empty
            = (Inr (False, ''{'', None, ''error: expected expression''), fs'))
   \<and> (\<exists>w'. worker (\<lambda>s. sconst 0) failing_env (0, 1, ''{'', ''gcc'', False) empty_world
            = (Inr False, w'))"
proof -
  have o: "open_raises failing_env = None"
    by (simp add: failing_env_def)
  have f: "compilation_failed
        (fst (subprocess_run failing_env [''gcc'', ''-c'', filename_of 7 failing_env @ ''.c''] 2))"
    by (simp add: failing_env_def compilation_failed_def)
  have d: "diagnostic
        (fst (subprocess_run failing_env [''gcc'', ''-c'', filename_of 7 failing_env @ ''.c''] 2))
      = ''error: expected expression''"
    by (simp add: failing_env_def diagnostic_def)
  have p: "(7::int) = getpid failing_env \<and> (2::int) = 2 \<and> 0 \<le> total_count empty_world
      \<and> worker_content (\<lambda>s. sconst 0) failing_env (0, 1, ''{'', ''gcc'', False) = Inr ''{''"
    by (simp add: worker_content_example) (simp add: failing_env_def empty_world_def)
  from compile_failures_are_results [OF o f, of "''{''" Map.empty empty_world "\<lambda>s. sconst 0" 0 1 "''{''" False]
    d p o f
  show ?thesis by simp
qed

section \<open>Properties of the worker's seed\<close>

text \<open>
  The worker seeds the random generator with the sum of its process id and its task
  id. Two executions of the worker whose sums are equal (so any two with the same
  process id and task id), with the same content length and character set, generate
  the same content, whatever state the generator was in before and whatever the
  compiler and the error flag are. Two tasks run by one process get different
  seeds, and so does one task id in two processes.
\<close>

lemma worker_seed_determines_content:
  "(worker_seed (getpid env1) task_id1 = worker_seed (getpid env2) task_id2 \<longrightarrow>
      worker_content seeded env1 (task_id1, byte_size, charset, compiler1, show_errors1)
        = worker_content seeded env2 (task_id2, byte_size, charset, compiler2, show_errors2))
   \<and> worker_seed pid task_id = pid + task_id
   \<and> (worker_seed pid task_id1 = worker_seed pid task_id2 \<longleftrightarrow> task_id1 = task_id2)
   \<and> (worker_seed pid1 task_id = worker_seed pid2 task_id \<longleftrightarrow> pid1 = pid2)"
  by (simp add: worker_content_def worker_seed_def random_seed_def)

lemma worker_seed_determines_content_example:
  "worker_seed (getpid succeeding_env) 3 = worker_seed (getpid failing_env) 3
   \<and> worker_content (\<lambda>s. siterate Suc (nat s)) succeeding_env (3, 2, ''ab'', ''gcc'', False)
        = worker_content (\<lambda>s. siterate Suc (nat s)) failing_env (3, 2, ''ab'', ''clang'', True)"
proof -
  have s: "worker_seed (getpid succeeding_env) 3 = worker_seed (getpid failing_env) 3"
    by (simp add: succeeding_env_def failing_env_def)
  with worker_seed_determines_content
    [of succeeding_env 3 failing_env 3 "\<lambda>s. siterate Suc (nat s)" 2 "''ab''" "''gcc''" False
        "''clang''" True]
  show ?thesis by blast
qed

text \<open>
  Claim C9 fails on the code. The claim has two halves: two executions with the same
  process id, task id, length and character set generate the same content, which
  the lemma above gives; and different tasks run at the same time do not collide,
  which the code misses. The comment at line 122 says that the seed is different
  for each process, but the seed is the sum of the process id and the task id, and a
  sum does not tell its pairs apart: a task of one process and the task before it
  in the next process always get the same seed. Task 1 in process 3 and task 0 in
  process 4 are two different tasks in two different processes that seed with 4 and
  generate the same content.
\<close>

theorem worker_seeds_collide:
  "worker_seed p (t + 1) = worker_seed (p + 1) t
   \<and> getpid (failing_env\<lparr>getpid := 3\<rparr>) \<noteq> getpid (failing_env\<lparr>getpid := 4\<rparr>)
   \<and> (1::int) \<noteq> 0
   \<and> worker_seed (getpid (failing_env\<lparr>getpid := 3\<rparr>)) 1 = 4
   \<and> worker_seed (getpid (failing_env\<lparr>getpid := 4\<rparr>)) 0 = 4
   \<and> worker_content (\<lambda>s. siterate Suc (nat s)) (failing_env\<lparr>getpid := 3\<rparr>)
         (1, 3, ''ab'', ''gcc'', False)
       = worker_content (\<lambda>s. siterate Suc (nat s)) (failing_env\<lparr>getpid := 4\<rparr>)
         (0, 3, ''ab'', ''gcc'', False)
   \<and> worker_content (\<lambda>s. siterate Suc (nat s)) (failing_env\<lparr>getpid := 3\<rparr>)
         (1, 3, ''ab'', ''gcc'', False) = Inr ''aba''"
  by (simp add: worker_seed_def worker_content_def random_seed_def failing_env_def
      generate_random_c_content_def eval_nat_numeral random_choice_def mod_Suc)

section \<open>The timeout of the compiler process\<close>

lemma make_task_timeout: "make_task (a\<lparr>args_timeout := t\<rparr>) = make_task a"
  by (simp add: make_task_def fun_eq_iff)

lemma startup_timeout: "startup (a\<lparr>args_timeout := t\<rparr>) = startup a"
  by (simp add: startup_def fun_eq_iff)

lemma fixed_mode_timeout: "fixed_mode (a\<lparr>args_timeout := t\<rparr>) = fixed_mode a"
  by (simp add: fixed_mode_def fixed_tasks_def make_task_timeout fun_eq_iff)

lemma unlimited_mode_timeout: "unlimited_mode (a\<lparr>args_timeout := t\<rparr>) = unlimited_mode a"
  by (simp add: unlimited_mode_def make_task_timeout fun_eq_iff cong: prod.case_cong sum.case_cong)

lemma main_charset_timeout: "main_charset (a\<lparr>args_timeout := t\<rparr>) = main_charset a"
  by (simp add: main_charset_def)

lemma main_timeout: "main (a\<lparr>args_timeout := t\<rparr>) env w = main a env w"
  by (simp add: main_def Let_def startup_timeout fixed_mode_timeout unlimited_mode_timeout
      main_charset_timeout
      cong: prod.case_cong sum.case_cong if_cong)

lemma slow_content:
  "worker_content (\<lambda>s. sconst 0) slow_compiler_env
     (make_task (default_args\<lparr>args_timeout := 10\<rparr>) '';'' 0) = Inr '';;;;;''"
  by (simp add: worker_content_def generate_random_c_content_def random_seed_def
      random_choice_def make_task_def default_args_def eval_nat_numeral)

lemma slow_probe_timeout_10:
  "fst (test_compilation '';;;;;'' 7 ''gcc'' 10 slow_compiler_env Map.empty)
     = Inr (True, '';;;;;'', Some (filename_of 7 slow_compiler_env @ ''.c''), [])"
  using test_compilation_success [of slow_compiler_env "''gcc''" 7 10 "[]" "[]" "Some ''object''"
      "'';;;;;''" Map.empty]
  by (simp add: slow_compiler_env_def)

lemma slow_worker:
  "fst (worker (\<lambda>s. sconst 0) slow_compiler_env
     (make_task (default_args\<lparr>args_timeout := 10\<rparr>) '';'' 0) empty_world) = Inr False"
proof -
  have o: "open_raises slow_compiler_env = None"
    by (simp add: slow_compiler_env_def)
  have f: "compilation_failed (fst (subprocess_run slow_compiler_env
       [''gcc'', ''-c'', filename_of (getpid slow_compiler_env) slow_compiler_env @ ''.c''] 2))"
    by (simp add: slow_compiler_env_def compilation_failed_def)
  have z: "total_count empty_world \<noteq> - 1"
    by (simp add: empty_world_def)
  have m: "make_task (default_args\<lparr>args_timeout := 10\<rparr>) '';'' 0 = (0, 5, '';'', ''gcc'', False)"
    by (simp add: make_task_def default_args_def)
  from worker_result [OF slow_content [unfolded m]
      test_compilation_failed [OF o f, of "'';;;;;''" "files empty_world"] z]
  show ?thesis by (auto simp: m)
qed

text \<open>
  Claim C1 fails on the code. The timeout of the command line is in no task and
  changes nothing in a run: every probe of a worker runs with the default timeout 2.
  With a timeout of 10 on the command line and a compiler that succeeds after 5 time
  units, a probe with the configured timeout would succeed, and the worker's probe
  fails.
\<close>

theorem configured_timeout_is_not_used:
  "main (a\<lparr>args_timeout := t\<rparr>) env w = main a env w
   \<and> make_task (a\<lparr>args_timeout := t\<rparr>) = make_task a
   \<and> fst (test_compilation '';;;;;'' 7 ''gcc'' (args_timeout (default_args\<lparr>args_timeout := 10\<rparr>))
            slow_compiler_env Map.empty)
       = Inr (True, '';;;;;'', Some (filename_of 7 slow_compiler_env @ ''.c''), [])
   \<and> fst (worker (\<lambda>s. sconst 0) slow_compiler_env
            (make_task (default_args\<lparr>args_timeout := 10\<rparr>) '';'' 0) empty_world) = Inr False"
  using main_timeout [where a = a and t = t and env = env and w = w]
    make_task_timeout [where a = a and t = t] slow_probe_timeout_10 slow_worker
  by simp


section \<open>The counters through a whole run\<close>

lemma keeps_countersI:
  assumes "\<And>w r w'. counters_inv w \<Longrightarrow> m w = (r, w') \<Longrightarrow>
             counters_inv w' \<and> prefix (counter_log w) (counter_log w')"
  shows "keeps_counters m"
  unfolding keeps_counters_def
proof (intro allI impI)
  fix w assume "counters_inv w"
  from assms [OF this, of "fst (m w)" "snd (m w)"]
  show "counters_inv (snd (m w)) \<and> prefix (counter_log w) (counter_log (snd (m w)))"
    by simp
qed

lemma keeps_countersD:
  assumes "keeps_counters m" "counters_inv w" "m w = (r, w')"
  shows "counters_inv w'" "prefix (counter_log w) (counter_log w')"
  using assms by (auto simp: keeps_counters_def)

lemma keeps_return [simp]: "keeps_counters (return a)"
  by (simp add: keeps_counters_def return_def)

lemma keeps_raise [simp]: "keeps_counters (raise e)"
  by (simp add: keeps_counters_def raise_def)

lemma keeps_print [simp]: "keeps_counters (print l)"
  by (simp add: keeps_counters_def print_def counters_inv_def)

lemma keeps_submit [simp]: "keeps_counters (submit ts)"
  by (simp add: keeps_counters_def submit_def counters_inv_def)

lemma keeps_Pool [simp]: "keeps_counters (Pool n)"
  by (simp add: Pool_def)

lemma keeps_stopped_by_user [simp]: "keeps_counters stopped_by_user"
  by (simp add: stopped_by_user_def)

lemma keeps_print_results [simp]: "keeps_counters (print_results c)"
  by (simp add: keeps_counters_def print_results_def print_def counters_inv_def)

lemma keeps_seq:
  assumes "keeps_counters m" "\<And>a. keeps_counters (f a)"
  shows "keeps_counters (seq m f)"
proof (rule keeps_countersI)
  fix w r w' assume inv: "counters_inv w" and run: "seq m f w = (r, w')"
  obtain r1 w1 where m: "m w = (r1, w1)" by (cases "m w")
  note k1 = keeps_countersD [OF assms(1) inv m]
  show "counters_inv w' \<and> prefix (counter_log w) (counter_log w')"
  proof (cases r1)
    case (Inl e)
    with run m k1 show ?thesis by (simp add: seq_def)
  next
    case (Inr a)
    with run m have "f a w1 = (r, w')" by (simp add: seq_def)
    from keeps_countersD [OF assms(2) k1(1) this] k1(2) show ?thesis
      by (auto intro: prefix_order.trans)
  qed
qed

lemma keeps_run_workers [simp]: "keeps_counters (run_workers env ts)"
  by (rule keeps_countersI) (use run_workers_counters in blast)

lemma keeps_except_KeyboardInterrupt:
  assumes "keeps_counters m" "keeps_counters h"
  shows "keeps_counters (\<lambda>w. except_KeyboardInterrupt (m w) h)"
proof (rule keeps_countersI)
  fix w r w' assume inv: "counters_inv w" and run: "except_KeyboardInterrupt (m w) h = (r, w')"
  obtain r1 w1 where m: "m w = (r1, w1)" by (cases "m w")
  note k1 = keeps_countersD [OF assms(1) inv m]
  show "counters_inv w' \<and> prefix (counter_log w) (counter_log w')"
  proof (cases "\<exists>e. r1 = Inl e \<and> is_KeyboardInterrupt e")
    case True
    with run m have "h w1 = (r, w')" by (auto simp: except_KeyboardInterrupt_def)
    from keeps_countersD [OF assms(2) k1(1) this] k1(2) show ?thesis
      by (auto intro: prefix_order.trans)
  next
    case False
    with run m have "w' = w1"
      by (cases r1) (auto simp: except_KeyboardInterrupt_def)
    with k1 show ?thesis by simp
  qed
qed

lemma keeps_fixed_mode [simp]: "keeps_counters (fixed_mode a env charset)"
proof -
  have "keeps_counters (\<lambda>w. except_KeyboardInterrupt
           (seq (Pool (cpu_count env)) (\<lambda>_.
            seq (submit (fixed_tasks a charset)) (\<lambda>_.
            case interrupt_after env of
              None \<Rightarrow> run_workers env (completion_order env (fixed_tasks a charset))
            | Some k \<Rightarrow>
                if k < length (fixed_tasks a charset)
                then seq (run_workers env (take k (completion_order env (fixed_tasks a charset))))
                       (\<lambda>_. raise (Exn KeyboardInterrupt []))
                else run_workers env (completion_order env (fixed_tasks a charset)))) w)
           stopped_by_user)"
    by (intro keeps_except_KeyboardInterrupt keeps_seq)
      (simp_all add: keeps_seq split: option.split)
  then show ?thesis
    by (simp add: fixed_mode_def [abs_def] Let_def)
qed

text \<open>
  The loop of the unlimited mode may not return, so its property is proved by the
  induction rule of its definition: whenever it returns, the history is well-formed.
\<close>

lemma unlimited_loop_counters:
  assumes "unlimited_loop env mk remaining task_id w = Some y"
  shows "counters_inv w \<longrightarrow>
           counters_inv (snd y) \<and> prefix (counter_log w) (counter_log (snd y))"
proof (rule unlimited_loop.raw_induct
    [where P = "\<lambda>env mk remaining task_id w y. counters_inv w \<longrightarrow>
           counters_inv (snd y) \<and> prefix (counter_log w) (counter_log (snd y))", OF _ assms],
    goal_cases)
  case (1 loop env mk remaining task_id w y)
  let ?batch = "cpu_count env * 10"
  let ?tasks = "map (\<lambda>i. mk (task_id + int i)) [0..<?batch]"
  show ?case
  proof (intro impI)
    assume inv: "counters_inv w"
    show "counters_inv (snd y) \<and> prefix (counter_log w) (counter_log (snd y))"
    proof (cases "case remaining of None \<Rightarrow> False | Some k \<Rightarrow> k < ?batch")
      case True
      with 1(2) have y: "seq (submit ?tasks) (\<lambda>_.
                    seq (run_workers env (take (the remaining) (completion_order env ?tasks)))
                      (\<lambda>_. raise (Exn KeyboardInterrupt []))) w = y"
        by (simp add: Let_def)
      have "keeps_counters (seq (submit ?tasks) (\<lambda>_.
                    seq (run_workers env (take (the remaining) (completion_order env ?tasks)))
                      (\<lambda>_. raise (Exn KeyboardInterrupt []))))"
        by (intro keeps_seq) simp_all
      from keeps_countersD [OF this inv, of "fst y" "snd y"] y show ?thesis
        by simp
    next
      case False
      obtain r1 w1 where b: "seq (submit ?tasks) (\<lambda>_. run_workers env (completion_order env ?tasks)) w
          = (r1, w1)"
        by (cases "seq (submit ?tasks) (\<lambda>_. run_workers env (completion_order env ?tasks)) w")
      have "keeps_counters (seq (submit ?tasks) (\<lambda>_. run_workers env (completion_order env ?tasks)))"
        by (intro keeps_seq) simp_all
      note k1 = keeps_countersD [OF this inv b]
      show ?thesis
      proof (cases r1)
        case (Inl e)
        with False 1(2) b have "y = (Inl e, w1)"
          by (simp add: Let_def)
        with k1 show ?thesis by simp
      next
        case (Inr u)
        obtain r2 w2 where p: "print (ProcessingSpeed (total_count w1)) w1 = (r2, w2)"
          by (cases "print (ProcessingSpeed (total_count w1)) w1")
        note k2 = keeps_countersD [OF keeps_print k1(1) p]
        from False 1(2) b Inr p
        have "loop env mk (map_option (\<lambda>k. k - ?batch) remaining) (task_id + int ?batch) w2 = Some y"
          by (simp add: Let_def)
        from 1(1) [OF this] k2 k1 show ?thesis
          by (auto intro: prefix_order.trans)
      qed
    qed
  qed
qed

lemma unlimited_mode_counters:
  assumes "unlimited_mode a env charset w = Some (r, w')" "counters_inv w"
  shows "counters_inv w' \<and> prefix (counter_log w) (counter_log w')"
proof -
  let ?m = "seq (print (Text ''Running in unlimited task mode... (Press Ctrl+C to stop)''))
             (\<lambda>_. Pool (cpu_count env))"
  obtain r1 w1 where b: "?m w = (r1, w1)" by (cases "?m w")
  have "keeps_counters ?m" by (intro keeps_seq) simp_all
  note k1 = keeps_countersD [OF this assms(2) b]
  show ?thesis
  proof (cases r1)
    case (Inl e)
    with assms(1) b have x: "except_KeyboardInterrupt (Inl e, w1) stopped_by_user = (r, w')"
      by (simp add: unlimited_mode_def)
    have "keeps_counters (\<lambda>w. except_KeyboardInterrupt (raise e w) stopped_by_user)"
      by (intro keeps_except_KeyboardInterrupt) simp_all
    from keeps_countersD [OF this k1(1), of r w'] x k1(2) show ?thesis
      by (auto simp: raise_def intro: prefix_order.trans)
  next
    case (Inr u)
    with assms(1) b obtain y where l: "unlimited_loop env (make_task a charset) (interrupt_after env) 0 w1 = Some y"
      and x: "except_KeyboardInterrupt y stopped_by_user = (r, w')"
      by (auto simp: unlimited_mode_def)
    from unlimited_loop_counters [OF l] k1
    have k2: "counters_inv (snd y)" "prefix (counter_log w) (counter_log (snd y))"
      by (auto intro: prefix_order.trans)
    have "keeps_counters (Pair (fst y))"
      by (simp add: keeps_counters_def)
    then have "keeps_counters (\<lambda>w. except_KeyboardInterrupt (Pair (fst y) w) stopped_by_user)"
      by (intro keeps_except_KeyboardInterrupt) simp_all
    from keeps_countersD [OF this k2(1), of r w'] x k2(2) show ?thesis
      by (auto intro: prefix_order.trans)
  qed
qed

text \<open>
  The start of a run creates the counters at 0, and a run with a fixed number of tasks
  whose workers all return counts each of them once.
\<close>

lemma startup_effect:
  "\<exists>r w1. startup a env charset combinations w = (r, w1)
     \<and> counters_inv w1 \<and> counter_log w1 = [(0, 0)]
     \<and> total_count w1 = 0 \<and> successful_count w1 = 0
     \<and> files w1 = files w \<and> dispatched w1 = dispatched w
     \<and> (files w ''successful_codes'' = None \<longrightarrow> r = Inr ())"
  by (simp add: startup_def seq_def print_def create_counters_def os_makedirs_exist_ok_def
      os_path_exists_def counters_inv_def nondecreasing_def)

lemma calculate_combinations_nonempty:
  "charset \<noteq> [] \<Longrightarrow> \<exists>c. calculate_combinations (int (length charset)) n = Inr c"
  by (simp add: calculate_combinations_def)

lemma and_then_print_results:
  "\<exists>r' w''. and_then (r, w') (\<lambda>_. print_results c) = (r', w'')
     \<and> (counters_inv w' \<longrightarrow> counters_inv w'') \<and> counter_log w'' = counter_log w'
     \<and> total_count w'' = total_count w' \<and> successful_count w'' = successful_count w'
     \<and> dispatched w'' = dispatched w' \<and> (r = Inr () \<longrightarrow> r' = Inr ())"
  by (cases r) (simp_all add: and_then_def print_results_def print_def counters_inv_def)

lemma main_counters:
  assumes m: "main a env w = Some (r, w')" and c: "main_charset a \<noteq> []"
  shows "counters_inv w' \<and> prefix [(0, 0)] (counter_log w')"
proof -
  from calculate_combinations_nonempty [OF c]
  obtain combinations
    where cc: "calculate_combinations (int (length (main_charset a))) (args_byte_size a)
                 = Inr combinations"
    by blast
  from startup_effect [of a env "main_charset a" combinations w]
  obtain r1 w1 where s: "startup a env (main_charset a) combinations w = (r1, w1)"
    and i1: "counters_inv w1" and l1: "counter_log w1 = [(0, 0)]"
    by blast
  show ?thesis
  proof (cases r1)
    case (Inl e)
    with m c cc s have "w' = w1"
      by (simp add: main_def Let_def)
    with i1 l1 show ?thesis by simp
  next
    case (Inr u)
    with m c cc s obtain y
      where mode: "(if args_tasks a = - 1 then unlimited_mode a env (main_charset a) w1
                    else Some (fixed_mode a env (main_charset a) w1)) = Some y"
        and fin: "and_then y (\<lambda>_. print_results combinations) = (r, w')"
      by (auto simp: main_def Let_def)
    have "counters_inv (snd y) \<and> prefix (counter_log w1) (counter_log (snd y))"
    proof (cases "args_tasks a = - 1")
      case True
      with mode have "unlimited_mode a env (main_charset a) w1 = Some (fst y, snd y)"
        by simp
      from unlimited_mode_counters [OF this i1] show ?thesis .
    next
      case False
      with mode have "fixed_mode a env (main_charset a) w1 = (fst y, snd y)"
        by simp
      from keeps_countersD [OF keeps_fixed_mode i1 this] show ?thesis by simp
    qed
    with and_then_print_results [of "fst y" "snd y" combinations] fin l1
    show ?thesis by auto
  qed
qed

lemma run_workers_returns:
  assumes "counters_inv w"
    and "\<forall>t \<in> set ts. probe_ends (task_env env (fst t)) \<and> fst (snd (snd t)) \<noteq> []"
  shows "\<exists>w'. run_workers env ts w = (Inr (), w')"
  using assms
proof (induction ts arbitrary: w)
  case Nil
  show ?case by (simp add: return_def)
next
  case (Cons t ts)
  obtain task_id byte_size charset compiler show_errors
    where t: "t = (task_id, byte_size, charset, compiler, show_errors)"
    by (cases t)
  from Cons.prems(2) t have p: "probe_ends (task_env env task_id)" and c: "charset \<noteq> []"
    by simp_all
  from counters_inv_le [OF Cons.prems(1)] have z: "total_count w \<noteq> - 1"
    by simp
  from worker_returns [OF p c z, of "rng_of_seed env" task_id byte_size compiler show_errors]
  obtain s w1 where w1: "worker (rng_of_seed env) (task_env env task_id) t w = (Inr s, w1)"
    using t by blast
  from worker_counters [OF Cons.prems(1) w1] have "counters_inv w1"
    by simp
  from Cons.IH [OF this] Cons.prems(2) obtain w' where "run_workers env ts w1 = (Inr (), w')"
    by auto
  with w1 t show ?case
    by (simp add: seq_def)
qed

lemma fixed_mode_completes:
  assumes inv: "counters_inv w"
    and cpu: "1 \<le> cpu_count env"
    and c: "charset \<noteq> []"
    and int: "\<forall>k. interrupt_after env = Some k \<longrightarrow> nat (args_tasks a) \<le> k"
    and perm: "mset (completion_order env (fixed_tasks a charset)) = mset (fixed_tasks a charset)"
    and ends: "\<forall>i. probe_ends (task_env env i)"
  shows "\<exists>w'. fixed_mode a env charset w = (Inr (), w')
           \<and> counters_inv w'
           \<and> total_count w' = total_count w + int (nat (args_tasks a))
           \<and> dispatched w' = dispatched w @ fixed_tasks a charset"
proof -
  let ?tasks = "fixed_tasks a charset"
  let ?order = "completion_order env ?tasks"
  let ?w1 = "w\<lparr>dispatched := dispatched w @ ?tasks\<rparr>"
  have len: "length ?tasks = nat (args_tasks a)"
    by (simp add: fixed_tasks_def)
  have olen: "length ?order = nat (args_tasks a)"
    using mset_eq_length [OF perm] len by simp
  have oset: "set ?order = set ?tasks"
    using mset_eq_setD [OF perm] .
  have i1: "counters_inv ?w1"
    using inv by (simp add: counters_inv_def)
  have good: "\<forall>t \<in> set ?order. probe_ends (task_env env (fst t)) \<and> fst (snd (snd t)) \<noteq> []"
    using ends c oset by (auto simp: fixed_tasks_def make_task_def)
  from run_workers_returns [OF i1 good]
  obtain w' where run: "run_workers env ?order ?w1 = (Inr (), w')"
    by blast
  from run_workers_counters [OF i1 run] olen
  have f: "counters_inv w'" "total_count w' = total_count w + int (nat (args_tasks a))"
    "dispatched w' = dispatched w @ ?tasks"
    by simp_all
  have "(case interrupt_after env of
           None \<Rightarrow> run_workers env ?order
         | Some k \<Rightarrow>
             if k < length ?tasks
             then seq (run_workers env (take k ?order)) (\<lambda>_. raise (Exn KeyboardInterrupt []))
             else run_workers env ?order) = run_workers env ?order"
    using int len by (auto split: option.split)
  then have "fixed_mode a env charset w = (Inr (), w')"
    using cpu run
    by (simp add: fixed_mode_def Let_def seq_def Pool_def return_def submit_def
        except_KeyboardInterrupt_def)
  with f show ?thesis by simp
qed

lemma main_completes:
  assumes t: "args_tasks a \<noteq> - 1"
    and c: "main_charset a \<noteq> []"
    and cpu: "1 \<le> cpu_count env"
    and dir: "files w ''successful_codes'' = None"
    and int: "\<forall>k. interrupt_after env = Some k \<longrightarrow> nat (args_tasks a) \<le> k"
    and perm: "mset (completion_order env (fixed_tasks a (main_charset a)))
                 = mset (fixed_tasks a (main_charset a))"
    and ends: "\<forall>i. probe_ends (task_env env i)"
  shows "\<exists>w'. main a env w = Some (Inr (), w')
           \<and> counters_inv w'
           \<and> total_count w' = int (nat (args_tasks a))
           \<and> dispatched w' = dispatched w @ fixed_tasks a (main_charset a)"
proof -
  from calculate_combinations_nonempty [OF c]
  obtain combinations
    where cc: "calculate_combinations (int (length (main_charset a))) (args_byte_size a)
                 = Inr combinations"
    by blast
  from startup_effect [of a env "main_charset a" combinations w] dir
  obtain w1 where s: "startup a env (main_charset a) combinations w = (Inr (), w1)"
    and i1: "counters_inv w1" and t1: "total_count w1 = 0" and d1: "dispatched w1 = dispatched w"
    by auto
  from fixed_mode_completes [OF i1 cpu c int perm ends]
  obtain w2 where f: "fixed_mode a env (main_charset a) w1 = (Inr (), w2)"
    and i2: "counters_inv w2" and t2: "total_count w2 = total_count w1 + int (nat (args_tasks a))"
    and d2: "dispatched w2 = dispatched w1 @ fixed_tasks a (main_charset a)"
    by blast
  from and_then_print_results [of "Inr ()" w2 combinations]
  obtain w3 where p: "and_then (Inr (), w2) (\<lambda>_. print_results combinations) = (Inr (), w3)"
    and i3: "counters_inv w2 \<longrightarrow> counters_inv w3" and t3: "total_count w3 = total_count w2"
    and d3: "dispatched w3 = dispatched w2"
    by auto
  have "main a env w = Some (Inr (), w3)"
    using t c cc s f p by (simp add: main_def Let_def)
  with i2 i3 t1 t2 t3 d1 d2 d3 show ?thesis by simp
qed

text \<open>
  Claim C3. In every run of \<^verbatim>\<open>main\<close> that returns, in either mode, completed,
  interrupted or ended by an exception, the history of the two counters starts at
  \<open>(0, 0)\<close>, ends with their final values, never decreases in either counter, and has
  the successes between 0 and the attempts in each of its entries. A run with a fixed
  number of tasks \<open>T\<close> that is not interrupted, on processes whose probes end,
  returns with all \<open>T\<close> tasks handed to the pool, the attempts counter equal to \<open>T\<close>
  and the successes counter between 0 and \<open>T\<close>.
\<close>

theorem counters_through_a_run:
  "(main a env w = Some (r, w') \<and> main_charset a \<noteq> [] \<longrightarrow>
      prefix [(0, 0)] (counter_log w')
      \<and> last (counter_log w') = (total_count w', successful_count w')
      \<and> nondecreasing (counter_log w')
      \<and> (\<forall>(total, successes) \<in> set (counter_log w'). 0 \<le> successes \<and> successes \<le> total))
   \<and> (args_tasks a \<noteq> - 1 \<and> main_charset a \<noteq> [] \<and> 1 \<le> cpu_count env
      \<and> files w ''successful_codes'' = None
      \<and> (\<forall>k. interrupt_after env = Some k \<longrightarrow> nat (args_tasks a) \<le> k)
      \<and> mset (completion_order env (fixed_tasks a (main_charset a)))
            = mset (fixed_tasks a (main_charset a))
      \<and> (\<forall>i. probe_ends (task_env env i))
      \<longrightarrow> (\<exists>w''. main a env w = Some (Inr (), w'')
             \<and> dispatched w'' = dispatched w @ fixed_tasks a (main_charset a)
             \<and> total_count w'' = int (length (fixed_tasks a (main_charset a)))
             \<and> 0 \<le> successful_count w''
             \<and> successful_count w'' \<le> int (length (fixed_tasks a (main_charset a)))))"
proof (rule conjI; rule impI)
  assume "main a env w = Some (r, w') \<and> main_charset a \<noteq> []"
  then have "counters_inv w' \<and> prefix [(0, 0)] (counter_log w')"
    using main_counters by blast
  then show "prefix [(0, 0)] (counter_log w')
      \<and> last (counter_log w') = (total_count w', successful_count w')
      \<and> nondecreasing (counter_log w')
      \<and> (\<forall>(total, successes) \<in> set (counter_log w'). 0 \<le> successes \<and> successes \<le> total)"
    by (simp add: counters_inv_def list_all_iff)
next
  assume h: "args_tasks a \<noteq> - 1 \<and> main_charset a \<noteq> [] \<and> 1 \<le> cpu_count env
      \<and> files w ''successful_codes'' = None
      \<and> (\<forall>k. interrupt_after env = Some k \<longrightarrow> nat (args_tasks a) \<le> k)
      \<and> mset (completion_order env (fixed_tasks a (main_charset a)))
            = mset (fixed_tasks a (main_charset a))
      \<and> (\<forall>i. probe_ends (task_env env i))"
  then obtain w'' where m: "main a env w = Some (Inr (), w'')"
    and i: "counters_inv w''" and t: "total_count w'' = int (nat (args_tasks a))"
    and d: "dispatched w'' = dispatched w @ fixed_tasks a (main_charset a)"
    using main_completes [of a env w] by blast
  have len: "length (fixed_tasks a (main_charset a)) = nat (args_tasks a)"
    by (simp add: fixed_tasks_def)
  from counters_inv_le [OF i] m t d len
  show "\<exists>w''. main a env w = Some (Inr (), w'')
             \<and> dispatched w'' = dispatched w @ fixed_tasks a (main_charset a)
             \<and> total_count w'' = int (length (fixed_tasks a (main_charset a)))
             \<and> 0 \<le> successful_count w''
             \<and> successful_count w'' \<le> int (length (fixed_tasks a (main_charset a)))"
    by auto
qed

lemma probe_ends_examples: "probe_ends succeeding_env" "probe_ends failing_env"
  by (simp_all add: probe_ends_def succeeding_env_def failing_env_def)

theorem counters_through_a_run_witness:
  "\<exists>w'. main three_tasks example_env empty_world = Some (Inr (), w')
     \<and> length (fixed_tasks three_tasks (main_charset three_tasks)) = 3
     \<and> total_count w' = 3 \<and> 0 \<le> successful_count w' \<and> successful_count w' \<le> 3
     \<and> prefix [(0, 0)] (counter_log w')
     \<and> last (counter_log w') = (total_count w', successful_count w')
     \<and> nondecreasing (counter_log w')
     \<and> (\<forall>(total, successes) \<in> set (counter_log w'). 0 \<le> successes \<and> successes \<le> total)"
proof -
  have c: "main_charset three_tasks \<noteq> []"
    by (simp add: main_charset_def three_tasks_def default_args_def get_charset_def
        ascii_lowercase_def)
  have len: "length (fixed_tasks three_tasks (main_charset three_tasks)) = 3"
    by (simp add: fixed_tasks_def three_tasks_def default_args_def)
  have h: "args_tasks three_tasks \<noteq> - 1 \<and> main_charset three_tasks \<noteq> []
      \<and> 1 \<le> cpu_count example_env
      \<and> files empty_world ''successful_codes'' = None
      \<and> (\<forall>k. interrupt_after example_env = Some k \<longrightarrow> nat (args_tasks three_tasks) \<le> k)
      \<and> mset (completion_order example_env (fixed_tasks three_tasks (main_charset three_tasks)))
            = mset (fixed_tasks three_tasks (main_charset three_tasks))
      \<and> (\<forall>i. probe_ends (task_env example_env i))"
    using c by (simp add: three_tasks_def default_args_def example_env_def empty_world_def
        probe_ends_examples)
  from counters_through_a_run [of three_tasks example_env empty_world] h
  obtain w' where m: "main three_tasks example_env empty_world = Some (Inr (), w')"
    and t: "total_count w' = int (length (fixed_tasks three_tasks (main_charset three_tasks)))"
    and s: "0 \<le> successful_count w'"
      "successful_count w' \<le> int (length (fixed_tasks three_tasks (main_charset three_tasks)))"
    by blast
  from counters_through_a_run [of three_tasks example_env empty_world "Inr ()" w'] m c
  have "prefix [(0, 0)] (counter_log w')
     \<and> last (counter_log w') = (total_count w', successful_count w')
     \<and> nondecreasing (counter_log w')
     \<and> (\<forall>(total, successes) \<in> set (counter_log w'). 0 \<le> successes \<and> successes \<le> total)"
    by blast
  with m t s len show ?thesis by auto
qed

section \<open>The configuration error\<close>

text \<open>
  Claim C7. The character set of a run is empty exactly when every character class
  is excluded, whitespace is not included and there is no custom character set (or
  an empty one). Then \<^verbatim>\<open>main\<close> returns at once, and the only thing it has changed
  is the console, where it has printed the error: no task is handed to the pool, and
  the counters, the files and the directories are as they were.
\<close>

theorem empty_charset_is_a_configuration_error:
  "(main_charset a = [] \<longleftrightarrow>
      args_no_lowercase a \<and> args_no_uppercase a \<and> args_no_digits a \<and> args_no_symbols a
      \<and> \<not> args_whitespace a \<and> (args_charset a = None \<or> args_charset a = Some []))
   \<and> (main_charset a = [] \<longrightarrow>
        main a env w = Some (Inr (),
          w\<lparr>stdout := stdout w @ [Text ''Error: At least one character type must be included'']\<rparr>))"
proof (intro conjI impI)
  show "main_charset a = [] \<longleftrightarrow>
      args_no_lowercase a \<and> args_no_uppercase a \<and> args_no_digits a \<and> args_no_symbols a
      \<and> \<not> args_whitespace a \<and> (args_charset a = None \<or> args_charset a = Some [])"
    by (cases "args_charset a")
      (auto simp: main_charset_def get_charset_def ascii_lowercase_def ascii_uppercase_def
        digits_def symbols_def whitespace_chars_def)
next
  assume "main_charset a = []"
  then show "main a env w = Some (Inr (),
          w\<lparr>stdout := stdout w @ [Text ''Error: At least one character type must be included'']\<rparr>)"
    by (simp add: main_def print_def)
qed

theorem empty_charset_is_a_configuration_error_witness:
  "main_charset no_characters = []
   \<and> main no_characters example_env empty_world = Some (Inr (),
        empty_world\<lparr>stdout := [Text ''Error: At least one character type must be included'']\<rparr>)
   \<and> dispatched (snd (the (main no_characters example_env empty_world))) = []
   \<and> total_count (snd (the (main no_characters example_env empty_world))) = 0"
proof -
  have e: "main_charset no_characters = []"
    using empty_charset_is_a_configuration_error [of no_characters example_env empty_world]
    by (simp add: no_characters_def default_args_def)
  with empty_charset_is_a_configuration_error [of no_characters example_env empty_world]
  have "main no_characters example_env empty_world = Some (Inr (),
        empty_world\<lparr>stdout := stdout empty_world
           @ [Text ''Error: At least one character type must be included'']\<rparr>)"
    by blast
  with e show ?thesis
    by (simp add: empty_world_def)
qed

end
